theory Spec2Isabelle
  imports Main
begin

section \<open>JavaScript values used by the server\<close>

text \<open>
  The server (\<^verbatim>\<open>src/unnamed/part_000\<close>) is an Express application over the external
  \<^verbatim>\<open>whatsapp-web.js\<close> client. Its handlers compute with JavaScript numbers, strings and
  arrays. A JavaScript number is modelled as \<open>NaN\<close> or an integer: every number the
  modelled handlers compute is an array index, an array length, a parsed integer or a
  sum, minimum or maximum of such. Strings are lists of code units (\<open>string\<close>); the
  empty string stands for every falsy request field (absent, \<^verbatim>\<open>null\<close>, empty), which
  the handlers never tell apart.
\<close>

datatype jsnum = NaN | Num int

text \<open>\<^verbatim>\<open>Math.min\<close>, \<^verbatim>\<open>Math.max\<close>, \<^verbatim>\<open>+\<close>, \<^verbatim>\<open>-\<close> propagate NaN; \<^verbatim>\<open><\<close> and
  \<^verbatim>\<open>===\<close> are false as soon as one side is NaN.\<close>

fun js_min :: "jsnum \<Rightarrow> jsnum \<Rightarrow> jsnum" where
  "js_min (Num a) (Num b) = Num (min a b)"
| "js_min _ _ = NaN"

fun js_max :: "jsnum \<Rightarrow> jsnum \<Rightarrow> jsnum" where
  "js_max (Num a) (Num b) = Num (max a b)"
| "js_max _ _ = NaN"

fun js_add :: "jsnum \<Rightarrow> jsnum \<Rightarrow> jsnum" where
  "js_add (Num a) (Num b) = Num (a + b)"
| "js_add _ _ = NaN"

fun js_sub :: "jsnum \<Rightarrow> jsnum \<Rightarrow> jsnum" where
  "js_sub (Num a) (Num b) = Num (a - b)"
| "js_sub _ _ = NaN"

fun js_lt :: "jsnum \<Rightarrow> jsnum \<Rightarrow> bool" where
  "js_lt (Num a) (Num b) = (a < b)"
| "js_lt _ _ = False"

fun js_eq :: "jsnum \<Rightarrow> jsnum \<Rightarrow> bool" where
  "js_eq (Num a) (Num b) = (a = b)"
| "js_eq _ _ = False"

text \<open>\<^verbatim>\<open>ToIntegerOrInfinity\<close> as \<^verbatim>\<open>Array.prototype.slice\<close> applies it: NaN becomes 0.\<close>

fun to_integer :: "jsnum \<Rightarrow> int" where
  "to_integer NaN = 0"
| "to_integer (Num a) = a"

text \<open>\<^verbatim>\<open>xs.slice(start, end)\<close>: a negative index counts from the end, both bounds are
  clamped to the array, an empty range gives the empty array.\<close>

definition js_slice :: "'a list \<Rightarrow> jsnum \<Rightarrow> jsnum \<Rightarrow> 'a list" where
  "js_slice xs s e =
     (let n = int (length xs);
          rs = to_integer s;
          re = to_integer e;
          k = (if rs < 0 then max (n + rs) 0 else min rs n);
          f = (if re < 0 then max (n + re) 0 else min re n)
      in take (nat (f - k)) (drop (nat k) xs))"

text \<open>\<^verbatim>\<open>xs.findIndex(p)\<close>: the first index whose element satisfies \<open>p\<close>, or -1.\<close>

fun findIndex :: "('a \<Rightarrow> bool) \<Rightarrow> 'a list \<Rightarrow> int" where
  "findIndex p [] = -1"
| "findIndex p (x # xs) =
     (if p x then 0 else (let i = findIndex p xs in if i < 0 then -1 else i + 1))"

text \<open>\<^verbatim>\<open>xs.find(p)\<close>: the first element that satisfies \<open>p\<close>, or \<^verbatim>\<open>undefined\<close>.\<close>

fun js_find :: "('a \<Rightarrow> bool) \<Rightarrow> 'a list \<Rightarrow> 'a option" where
  "js_find p [] = None"
| "js_find p (x # xs) = (if p x then Some x else js_find p xs)"

text \<open>\<^verbatim>\<open>s.startsWith(p)\<close> and \<^verbatim>\<open>s.includes(sub)\<close> on strings.\<close>

definition startsWith :: "string \<Rightarrow> string \<Rightarrow> bool" where
  "startsWith s p = (take (length p) s = p)"

fun str_includes :: "string \<Rightarrow> string \<Rightarrow> bool" where
  "str_includes [] sub = (sub = [])"
| "str_includes (c # cs) sub = (startsWith (c # cs) sub \<or> str_includes cs sub)"

subsection \<open>\<^verbatim>\<open>parseInt(s, 10)\<close>\<close>

text \<open>
  \<^verbatim>\<open>parseInt\<close> with radix 10 skips leading white space, reads an optional sign, then the
  longest run of decimal digits; with no digit the result is NaN. The white space of the
  model is the part of JavaScript's that fits a byte: TAB, LF, VT, FF, CR, SPACE and
  NBSP. \<open>Num n\<close> stands for the double nearest to \<open>n\<close> (and \<open>Num 0\<close> for both zeros):
  beyond \<open>2^53\<close> the double is rounded, which changes no comparison the handlers make.
\<close>

definition is_space :: "char \<Rightarrow> bool" where
  "is_space c = ((of_char c :: nat) \<in> {9, 10, 11, 12, 13, 32, 160})"

definition is_digit :: "char \<Rightarrow> bool" where
  "is_digit c = (48 \<le> (of_char c :: nat) \<and> (of_char c :: nat) \<le> 57)"

definition digits_val :: "string \<Rightarrow> nat" where
  "digits_val ds = foldl (\<lambda>acc c. 10 * acc + ((of_char c :: nat) - 48)) 0 ds"

definition parseInt10 :: "string \<Rightarrow> jsnum" where
  "parseInt10 s =
     (let t = dropWhile is_space s;
          neg = (case t of [] \<Rightarrow> False | c # _ \<Rightarrow> c = CHR ''-'');
          u = (case t of [] \<Rightarrow> [] | c # r \<Rightarrow> if c = CHR ''+'' \<or> c = CHR ''-'' then r else t);
          z = takeWhile is_digit u
      in if z = [] then NaN
         else Num ((if neg then -1 else 1) * int (digits_val z)))"

section \<open>Process-wide state and the session state machine\<close>

text \<open>
  The module-level variables of the server: the session flags, the last client state and
  the pinned messages of every chat (a \<^verbatim>\<open>Map\<close> from chat id to an array).
\<close>

record pinned =
  p_id :: string
  p_text :: string
  p_timestamp :: int
  p_sender :: string
  p_fromMe :: bool

record server =
  isAuthenticated :: bool
  isReady :: bool
  clientState :: string
  pinnedMessages :: "string \<rightharpoonup> pinned list"

text \<open>The payload of \<^verbatim>\<open>io.emit("status", { isAuthenticated, isReady, clientState })\<close>.\<close>

record status_event =
  ev_isAuthenticated :: bool
  ev_isReady :: bool
  ev_clientState :: string

definition status_of :: "server \<Rightarrow> status_event" where
  "status_of sv = \<lparr>ev_isAuthenticated = isAuthenticated sv, ev_isReady = isReady sv,
                    ev_clientState = clientState sv\<rparr>"

text \<open>
  \<^verbatim>\<open>client.on("change_state", (state) => ...)\<close>: stores the state, sets \<open>isReady\<close> on
  READY, clears both flags on CONFLICT and UNLAUNCHED, and emits the new snapshot.
\<close>

definition change_state :: "string \<Rightarrow> server \<Rightarrow> server \<times> status_event" where
  "change_state state sv =
     (let sv1 = sv\<lparr>clientState := state\<rparr>;
          sv2 = (if state = ''READY'' then sv1\<lparr>isReady := True\<rparr>
                 else if state = ''CONFLICT'' \<or> state = ''UNLAUNCHED''
                 then sv1\<lparr>isReady := False, isAuthenticated := False\<rparr>
                 else sv1)
      in (sv2, status_of sv2))"

section \<open>The external client\<close>

text \<open>
  The \<^verbatim>\<open>whatsapp-web.js\<close> client is not part of the server: its calls are parameters of
  the model. An awaited call either rejects (or throws) with an error message, or
  resolves to a value.
\<close>

datatype 'a js = Throw string | Return 'a

record msg =
  m_id :: string
  m_body :: string
  m_timestamp :: int
  m_fromMe :: bool
  m_from :: string
  m_to :: string
  m_hasMedia :: bool
  m_type :: string

text \<open>\<^verbatim>\<open>new MessageMedia(mimetype, data, filename)\<close> stores its three arguments.\<close>

record media =
  mimetype :: string
  mdata :: string
  filename :: string

text \<open>
  What one \<^verbatim>\<open>client.sendMessage(to, content, options)\<close> call carries. \<open>VoiceOptions mt fn\<close>
  stands for \<^verbatim>\<open>{sendAudioAsVoice: true, mimetype: mt, filename: fn, voiceMessage: true, ptt: true}\<close>,
  \<open>CaptionOption c\<close> for \<^verbatim>\<open>{caption: c}\<close>.
\<close>

datatype content = MediaContent media | TextContent string

datatype options = NoOptions | VoiceOptions string string | CaptionOption string

record attempt =
  a_to :: string
  a_content :: content
  a_options :: options

record chat =
  fetchMessages :: "jsnum \<Rightarrow> msg list js"

text \<open>
  \<open>getChatById\<close> may resolve to no chat (\<open>Return None\<close>). \<open>sendMessage n a\<close> is the outcome
  of the \<open>n\<close>-th \<^verbatim>\<open>sendMessage\<close> call of a request (counted from 0) carrying \<open>a\<close>, as the
  handler sees it: \<open>None\<close> when the call resolves (in the voice branch: before the shared
  30 second timeout), \<open>Some e\<close> when it rejects with message \<open>e\<close> or the timeout wins
  the race.
\<close>

record wa_client =
  getChatById :: "string \<Rightarrow> chat option js"
  downloadMedia :: "msg \<Rightarrow> media option js"
  sendMessage :: "nat \<Rightarrow> attempt \<Rightarrow> string option"

text \<open>
  Node's \<^verbatim>\<open>Buffer\<close>: the length of \<^verbatim>\<open>Buffer.from(s, "base64")\<close> and
  \<^verbatim>\<open>Buffer.from(s, "base64").toString("base64")\<close>, parameters as well.
\<close>

record node =
  decoded_length :: "string \<Rightarrow> nat"
  reencode :: "string \<Rightarrow> string"

section \<open>History pager\<close>

text \<open>
  \<^verbatim>\<open>const pageSize = Math.min(parseInt(limit || "50", 10), 100);\<close> where \<open>limit\<close> is the
  query parameter: \<open>None\<close> when absent, otherwise its string.
\<close>

definition pageSize :: "string option \<Rightarrow> jsnum" where
  "pageSize limit =
     js_min (parseInt10 (case limit of None \<Rightarrow> ''50'' | Some s \<Rightarrow> if s = [] then ''50'' else s))
            (Num 100)"

text \<open>
  The branch \<^verbatim>\<open>if (beforeId) { ... }\<close> of the handler: overfetch 500 messages, find the
  cursor, detect the order of the batch from its first and last timestamps, slice, and
  fetch 1000 once when the slice is short and ends at the end of the batch. The second
  component lists the limits of the \<^verbatim>\<open>fetchMessages\<close> calls made, in order.
\<close>

definition older_page :: "chat \<Rightarrow> jsnum \<Rightarrow> string \<Rightarrow> msg list js \<times> jsnum list" where
  "older_page ch ps beforeId =
     (case fetchMessages ch (Num 500) of
        Throw e \<Rightarrow> (Throw e, [Num 500])
      | Return allMessages \<Rightarrow>
          (let beforeIndex = findIndex (\<lambda>m. m_id m = beforeId) allMessages;
               len = Num (int (length allMessages))
           in if 0 \<le> beforeIndex then
                (let isNewestFirst =
                       (case allMessages of [] \<Rightarrow> False
                        | first # _ \<Rightarrow> 1 < length allMessages
                            \<and> m_timestamp (last allMessages) < m_timestamp first);
                     startIndex =
                       (if isNewestFirst then Num (beforeIndex + 1)
                        else js_max (Num 0) (js_sub (Num beforeIndex) ps));
                     endIndex =
                       (if isNewestFirst then js_min (js_add (Num (beforeIndex + 1)) ps) len
                        else Num beforeIndex);
                     messages =
                       (if js_lt startIndex endIndex \<and> js_lt startIndex len
                        then js_slice allMessages startIndex endIndex else [])
                 in if js_lt (Num (int (length messages))) ps \<and> js_eq endIndex len then
                      (case fetchMessages ch (Num 1000) of
                         Throw e \<Rightarrow> (Throw e, [Num 500, Num 1000])
                       | Return moreMessages \<Rightarrow>
                           (let newBeforeIndex = findIndex (\<lambda>m. m_id m = beforeId) moreMessages
                            in if 0 \<le> newBeforeIndex
                                  \<and> newBeforeIndex < int (length moreMessages) - 1
                               then
                                 (let newStartIndex = Num (newBeforeIndex + 1);
                                      newEndIndex = js_min (js_add newStartIndex ps)
                                                      (Num (int (length moreMessages)))
                                  in (Return (js_slice moreMessages newStartIndex newEndIndex),
                                      [Num 500, Num 1000]))
                               else (Return messages, [Num 500, Num 1000])))
                    else (Return messages, [Num 500]))
              else (Return [], [Num 500])))"

record formatted =
  f_id :: string
  f_body :: string
  f_timestamp :: int
  f_fromMe :: bool
  f_from :: string
  f_to :: string
  f_hasMedia :: bool
  f_mediaType :: string
  f_mediaUrl :: "string option"

text \<open>The body of the formatting loop: an image is inlined when its download gives data
  and a MIME type; a failed download leaves the message without \<open>mediaUrl\<close>.\<close>

definition format_message :: "wa_client \<Rightarrow> msg \<Rightarrow> formatted" where
  "format_message c m =
     (let base = \<lparr>f_id = m_id m, f_body = m_body m, f_timestamp = m_timestamp m,
                  f_fromMe = m_fromMe m, f_from = m_from m, f_to = m_to m,
                  f_hasMedia = m_hasMedia m, f_mediaType = m_type m, f_mediaUrl = None\<rparr>
      in if m_hasMedia m \<and> m_type m = ''image'' then
           (case downloadMedia c m of
              Return (Some md) \<Rightarrow>
                if mdata md \<noteq> [] \<and> mimetype md \<noteq> []
                then base\<lparr>f_mediaUrl := Some (''data:'' @ mimetype md @ '';base64,'' @ mdata md)\<rparr>
                else base
            | _ \<Rightarrow> base)
         else base)"

record messages_response =
  r_status :: nat
  r_messages :: "formatted list"
  r_error :: string

text \<open>
  \<^verbatim>\<open>app.get("/api/chat-messages/:chatId", ...)\<close>. \<open>client = None\<close> is the module variable
  \<^verbatim>\<open>client\<close> being null, on which \<^verbatim>\<open>client.getChatById\<close> throws into the handler's catch.
  \<open>beforeId\<close> is the query parameter, empty when absent.
\<close>

definition chat_messages_handler ::
  "wa_client option \<Rightarrow> server \<Rightarrow> string \<Rightarrow> string \<Rightarrow> string option
     \<Rightarrow> messages_response \<times> jsnum list" where
  "chat_messages_handler client sv chatId beforeId limit =
     (if \<not> isReady sv \<or> \<not> isAuthenticated sv then
        (\<lparr>r_status = 400, r_messages = [],
          r_error = ''WhatsApp client is not ready. Please wait for authentication.''\<rparr>, [])
      else
        (case client of
           None \<Rightarrow> (\<lparr>r_status = 500, r_messages = [], r_error = ''Failed to get chat messages''\<rparr>, [])
         | Some c \<Rightarrow>
             (case getChatById c chatId of
                Throw e \<Rightarrow>
                  (\<lparr>r_status = 500, r_messages = [], r_error = ''Failed to get chat messages''\<rparr>, [])
              | Return None \<Rightarrow>
                  (\<lparr>r_status = 404, r_messages = [], r_error = ''Chat not found''\<rparr>, [])
              | Return (Some ch) \<Rightarrow>
                  (let ps = pageSize limit;
                       fetched = (if beforeId \<noteq> [] then older_page ch ps beforeId
                                  else (fetchMessages ch ps, [ps]))
                   in case fst fetched of
                        Throw e \<Rightarrow>
                          (\<lparr>r_status = 500, r_messages = [],
                            r_error = ''Failed to get chat messages''\<rparr>, snd fetched)
                      | Return messages \<Rightarrow>
                          (\<lparr>r_status = 200,
                            r_messages = rev (map (format_message c) messages),
                            r_error = []\<rparr>, snd fetched)))))"

subsection \<open>A chat with a given history\<close>

datatype orientation = NewestFirst | OldestFirst

text \<open>
  Modelled from the spec: \<^verbatim>\<open>fetchMessages\<close> of the external library, which the spec
  describes as "fetch the most recent K messages for a chat" with no documented order.
  \<open>history\<close> lists the chat's messages from the oldest to the newest; the batch holds the
  \<open>K\<close> most recent ones, newest first or oldest first. The spec fixes the result for a
  positive \<open>K\<close> only; for any other limit this model returns no message, a choice no
  theorem below rests on.
\<close>

definition recent_messages :: "msg list \<Rightarrow> orientation \<Rightarrow> jsnum \<Rightarrow> msg list js" where
  "recent_messages history ori limit =
     (case limit of
        NaN \<Rightarrow> Return []
      | Num k \<Rightarrow>
          if 0 < k then
            (let recent = drop (length history - nat k) history
             in Return (if ori = NewestFirst then rev recent else recent))
          else Return [])"

definition history_chat :: "msg list \<Rightarrow> orientation \<Rightarrow> chat" where
  "history_chat history ori = \<lparr>fetchMessages = recent_messages history ori\<rparr>"

section \<open>Pinned messages\<close>

record pin_request =
  chatId :: string
  messageId :: string
  action :: string

record pin_response =
  pr_status :: nat
  pr_success :: bool
  pr_pinnedMessages :: "pinned list"
  pr_message :: string
  pr_error :: string

text \<open>\<^verbatim>\<open>pinnedMessages.get(chatId) || []\<close>, which is also the whole answer of
  \<^verbatim>\<open>GET /api/pinned-messages/:chatId\<close>.\<close>

definition pinned_of :: "server \<Rightarrow> string \<Rightarrow> pinned list" where
  "pinned_of sv cid = (case pinnedMessages sv cid of None \<Rightarrow> [] | Some l \<Rightarrow> l)"

definition pin_ok :: "server \<Rightarrow> pin_request \<Rightarrow> pin_response \<times> server" where
  "pin_ok sv rq =
     (\<lparr>pr_status = 200, pr_success = True, pr_pinnedMessages = pinned_of sv (chatId rq),
       pr_message = ''Message '' @ action rq @ ''ed successfully'', pr_error = []\<rparr>, sv)"

definition pin_failed :: "server \<Rightarrow> pin_response \<times> server" where
  "pin_failed sv =
     (\<lparr>pr_status = 500, pr_success = False, pr_pinnedMessages = [], pr_message = [],
       pr_error = ''Failed to pin/unpin message''\<rparr>, sv)"

text \<open>
  The look-up inside the pin branch: \<^verbatim>\<open>client.getChatById(chatId)\<close>,
  \<^verbatim>\<open>chat.fetchMessages({ limit: 100 })\<close> and \<^verbatim>\<open>messages.find(...)\<close> by serialized id. A null
  client or chat makes the next property access throw.
\<close>

definition find_message :: "wa_client option \<Rightarrow> string \<Rightarrow> string \<Rightarrow> msg option js" where
  "find_message client cid mid =
     (case client of
        None \<Rightarrow> Throw ''TypeError''
      | Some c \<Rightarrow>
          (case getChatById c cid of
             Throw e \<Rightarrow> Throw e
           | Return None \<Rightarrow> Throw ''TypeError''
           | Return (Some ch) \<Rightarrow>
               (case fetchMessages ch (Num 100) of
                  Throw e \<Rightarrow> Throw e
                | Return messages \<Rightarrow> Return (js_find (\<lambda>m. m_id m = mid) messages))))"

text \<open>The \<^verbatim>\<open>pinnedMessage\<close> object built from the message found.\<close>

definition to_pinned :: "msg \<Rightarrow> pinned" where
  "to_pinned m =
     \<lparr>p_id = m_id m, p_text = m_body m, p_timestamp = m_timestamp m,
      p_sender = (if m_fromMe m then ''me'' else m_from m), p_fromMe = m_fromMe m\<rparr>"

text \<open>
  \<^verbatim>\<open>app.post("/api/pin-message", ...)\<close>, run from its first statement to its response. The
  chat gets an empty array when it has none; pin appends the message (looked up among the
  100 most recent) unless an entry with that id is there; unpin keeps the entries with
  another id. A throwing client call leaves the state as it was at that point.
\<close>

definition pin_message_handler ::
  "wa_client option \<Rightarrow> server \<Rightarrow> pin_request \<Rightarrow> pin_response \<times> server" where
  "pin_message_handler client sv rq =
     (if \<not> isReady sv \<or> \<not> isAuthenticated sv then
        (\<lparr>pr_status = 400, pr_success = False, pr_pinnedMessages = [], pr_message = [],
          pr_error = ''WhatsApp client is not ready. Please wait for authentication.''\<rparr>, sv)
      else if chatId rq = [] \<or> messageId rq = [] \<or> action rq = [] then
        (\<lparr>pr_status = 400, pr_success = False, pr_pinnedMessages = [], pr_message = [],
          pr_error = ''Chat ID, message ID, and action are required''\<rparr>, sv)
      else
        (let sv0 = (if pinnedMessages sv (chatId rq) = None
                    then sv\<lparr>pinnedMessages := (pinnedMessages sv)(chatId rq \<mapsto> [])\<rparr> else sv);
             chatPinnedMessages = pinned_of sv0 (chatId rq)
         in if action rq = ''pin'' then
              (if js_find (\<lambda>p. p_id p = messageId rq) chatPinnedMessages = None then
                 (case find_message client (chatId rq) (messageId rq) of
                    Throw e \<Rightarrow> pin_failed sv0
                  | Return None \<Rightarrow> pin_ok sv0 rq
                  | Return (Some message) \<Rightarrow>
                      pin_ok (sv0\<lparr>pinnedMessages := (pinnedMessages sv0)
                                   (chatId rq \<mapsto> chatPinnedMessages @ [to_pinned message])\<rparr>)
                             rq)
               else pin_ok sv0 rq)
            else if action rq = ''unpin'' then
              pin_ok (sv0\<lparr>pinnedMessages := (pinnedMessages sv0)
                           (chatId rq \<mapsto> filter (\<lambda>p. p_id p \<noteq> messageId rq) chatPinnedMessages)\<rparr>)
                     rq
            else pin_ok sv0 rq))"

subsection \<open>Requests that overlap\<close>

text \<open>
  The handler is an \<^verbatim>\<open>async\<close> function: a pin request suspends at
  \<^verbatim>\<open>await client.getChatById(chatId)\<close> and \<^verbatim>\<open>await chat.fetchMessages(...)\<close>, after the
  already-pinned test and before the push, and other requests run meanwhile. What it
  holds across the suspension is \<^verbatim>\<open>chatPinnedMessages\<close>, a reference to the array stored in
  the Map, which \<^verbatim>\<open>push\<close> then changes in place. So the Map is modelled with an explicit
  store: it sends a chat id to an array reference, \<open>st_arrays\<close> gives the contents of every
  array and \<open>st_fresh\<close> is the next unused reference (\<^verbatim>\<open>[]\<close> and \<^verbatim>\<open>filter\<close> make new arrays).
\<close>

record store =
  st_isAuthenticated :: bool
  st_isReady :: bool
  st_map :: "string \<rightharpoonup> nat"
  st_arrays :: "nat \<Rightarrow> pinned list"
  st_fresh :: nat

text \<open>\<^verbatim>\<open>pinnedMessages.get(chatId) || []\<close> on the store.\<close>

definition store_pinned :: "store \<Rightarrow> string \<Rightarrow> pinned list" where
  "store_pinned s cid = (case st_map s cid of None \<Rightarrow> [] | Some r \<Rightarrow> st_arrays s r)"

text \<open>\<^verbatim>\<open>if (!pinnedMessages.has(chatId)) pinnedMessages.set(chatId, []);\<close> followed by
  \<^verbatim>\<open>const chatPinnedMessages = pinnedMessages.get(chatId);\<close>: the reference and the store.\<close>

definition ensure_array :: "store \<Rightarrow> string \<Rightarrow> nat \<times> store" where
  "ensure_array s cid =
     (case st_map s cid of
        None \<Rightarrow> (st_fresh s,
                 s\<lparr>st_map := (st_map s)(cid \<mapsto> st_fresh s),
                   st_arrays := (st_arrays s)(st_fresh s := []),
                   st_fresh := Suc (st_fresh s)\<rparr>)
      | Some r \<Rightarrow> (r, s))"

definition store_ok :: "store \<Rightarrow> pin_request \<Rightarrow> pin_response" where
  "store_ok s rq =
     \<lparr>pr_status = 200, pr_success = True, pr_pinnedMessages = store_pinned s (chatId rq),
      pr_message = ''Message '' @ action rq @ ''ed successfully'', pr_error = []\<rparr>"

text \<open>A request has answered, or it is suspended at the awaits of the pin branch, holding
  the array reference \<^verbatim>\<open>chatPinnedMessages\<close>.\<close>

datatype pin_progress = Responded pin_response | Awaiting nat

text \<open>
  The handler from its first statement to its first \<^verbatim>\<open>await\<close>, or to its response when it
  reaches none: the unpin branch and every other action have no \<^verbatim>\<open>await\<close>, and a pin
  of an id that is found in the array answers at once.
\<close>

definition pin_begin :: "store \<Rightarrow> pin_request \<Rightarrow> pin_progress \<times> store" where
  "pin_begin s rq =
     (if \<not> st_isReady s \<or> \<not> st_isAuthenticated s then
        (Responded
           \<lparr>pr_status = 400, pr_success = False, pr_pinnedMessages = [], pr_message = [],
            pr_error = ''WhatsApp client is not ready. Please wait for authentication.''\<rparr>, s)
      else if chatId rq = [] \<or> messageId rq = [] \<or> action rq = [] then
        (Responded
           \<lparr>pr_status = 400, pr_success = False, pr_pinnedMessages = [], pr_message = [],
            pr_error = ''Chat ID, message ID, and action are required''\<rparr>, s)
      else
        (let chatPinnedMessages = fst (ensure_array s (chatId rq));
             s0 = snd (ensure_array s (chatId rq))
         in if action rq = ''pin'' then
              (if js_find (\<lambda>p. p_id p = messageId rq) (st_arrays s0 chatPinnedMessages) = None
               then (Awaiting chatPinnedMessages, s0)
               else (Responded (store_ok s0 rq), s0))
            else if action rq = ''unpin'' then
              (let s1 = s0\<lparr>st_map := (st_map s0)(chatId rq \<mapsto> st_fresh s0),
                           st_arrays := (st_arrays s0)
                             (st_fresh s0 := filter (\<lambda>p. p_id p \<noteq> messageId rq)
                                               (st_arrays s0 chatPinnedMessages)),
                           st_fresh := Suc (st_fresh s0)\<rparr>
               in (Responded (store_ok s1 rq), s1))
            else (Responded (store_ok s0 rq), s0)))"

text \<open>
  The rest of the pin branch, run when the awaited calls have ended, on the store as it
  is then: the message is looked up in what the client answered, pushed onto the array
  the request holds, and that array is set as the chat's entry. Between the two awaits
  the handler touches no shared state, so they are one suspension here.
\<close>

definition pin_finish ::
  "wa_client option \<Rightarrow> store \<Rightarrow> pin_request \<Rightarrow> nat \<Rightarrow> pin_response \<times> store" where
  "pin_finish client s rq chatPinnedMessages =
     (case find_message client (chatId rq) (messageId rq) of
        Throw e \<Rightarrow>
          (\<lparr>pr_status = 500, pr_success = False, pr_pinnedMessages = [], pr_message = [],
            pr_error = ''Failed to pin/unpin message''\<rparr>, s)
      | Return None \<Rightarrow> (store_ok s rq, s)
      | Return (Some message) \<Rightarrow>
          (let s1 = s\<lparr>st_arrays := (st_arrays s)
                          (chatPinnedMessages :=
                             st_arrays s chatPinnedMessages @ [to_pinned message]),
                      st_map := (st_map s)(chatId rq \<mapsto> chatPinnedMessages)\<rparr>
           in (store_ok s1 rq, s1)))"

text \<open>A request that no other request overlaps: its two parts run back to back.\<close>

definition pin_alone :: "wa_client option \<Rightarrow> store \<Rightarrow> pin_request \<Rightarrow> pin_response \<times> store" where
  "pin_alone client s rq =
     (case fst (pin_begin s rq) of
        Responded r \<Rightarrow> (r, snd (pin_begin s rq))
      | Awaiting ref \<Rightarrow> pin_finish client (snd (pin_begin s rq)) rq ref)"

text \<open>
  The module state a store stands for, and the stores the server can have: every
  reference in the Map is in use, and two chats never share an array.
\<close>

definition view :: "store \<Rightarrow> string \<Rightarrow> server" where
  "view s cs =
     \<lparr>isAuthenticated = st_isAuthenticated s, isReady = st_isReady s, clientState = cs,
      pinnedMessages = (\<lambda>cid. map_option (st_arrays s) (st_map s cid))\<rparr>"

definition store_wf :: "store \<Rightarrow> bool" where
  "store_wf s =
     ((\<forall>cid r. st_map s cid = Some r \<longrightarrow> r < st_fresh s)
      \<and> (\<forall>c1 c2 r. st_map s c1 = Some r \<and> st_map s c2 = Some r \<longrightarrow> c1 = c2))"

section \<open>Outbound send pipeline\<close>

record send_request =
  number :: string
  message :: string
  audioData :: string
  isVoiceMessage :: bool
  mimeType :: string
  attachmentData :: string
  attachmentType :: string
  attachmentName :: string
  caption :: string

text \<open>The fields of the JSON answers that the claims read; the \<^verbatim>\<open>details\<close>,
  \<^verbatim>\<open>suggestions\<close> and \<^verbatim>\<open>warning\<close> fields are left out.\<close>

record send_response =
  s_status :: nat
  s_success :: "bool option"
  s_message :: string
  s_method :: string
  s_error :: string

definition send_error :: "nat \<Rightarrow> string \<Rightarrow> send_response" where
  "send_error st e = \<lparr>s_status = st, s_success = None, s_message = [], s_method = [], s_error = e\<rparr>"

subsection \<open>MIME type and file extension of a voice note\<close>

text \<open>\<^verbatim>\<open>let cleanMimeType = mimeType || "audio/webm";\<close> followed by the chain of
  \<^verbatim>\<open>includes\<close> tests, in the order of the source.\<close>

definition cleanMimeType :: "string \<Rightarrow> string" where
  "cleanMimeType mt =
     (let m = (if mt = [] then ''audio/webm'' else mt)
      in if str_includes m ''webm'' then ''audio/webm''
         else if str_includes m ''mp4'' \<or> str_includes m ''m4a'' then ''audio/mp4''
         else if str_includes m ''wav'' then ''audio/wav''
         else if str_includes m ''ogg'' then ''audio/ogg''
         else if str_includes m ''mp3'' then ''audio/mpeg''
         else ''audio/webm'')"

text \<open>The \<^verbatim>\<open>switch (cleanMimeType)\<close> that sets \<^verbatim>\<open>fileExtension\<close>.\<close>

definition fileExtension :: "string \<Rightarrow> string" where
  "fileExtension cm =
     (if cm = ''audio/webm'' then ''webm''
      else if cm = ''audio/mp4'' then ''m4a''
      else if cm = ''audio/wav'' then ''wav''
      else if cm = ''audio/ogg'' then ''ogg''
      else if cm = ''audio/mpeg'' then ''mp3''
      else ''mp3'')"

subsection \<open>Payload validation\<close>

text \<open>\<^verbatim>\<open>s.split(",")[1]\<close>: the text between the first and the second comma, undefined
  when \<open>s\<close> has no comma.\<close>

definition split_comma_second :: "string \<Rightarrow> string option" where
  "split_comma_second s =
     (case dropWhile (\<lambda>c. c \<noteq> CHR '','') s of
        [] \<Rightarrow> None
      | _ # rest \<Rightarrow> Some (takeWhile (\<lambda>c. c \<noteq> CHR '','') rest))"

text \<open>\<^verbatim>\<open>cleanAudioData\<close>: the payload without a data URL prefix.\<close>

definition cleanAudioData :: "string \<Rightarrow> string option" where
  "cleanAudioData ad = (if startsWith ad ''data:'' then split_comma_second ad else Some ad)"

text \<open>\<^verbatim>\<open>/^[A-Za-z0-9+/]*={0,2}$/.test(s)\<close>: base64 letters, then at most two \<^verbatim>\<open>=\<close>, then
  the end of the string.\<close>

definition is_b64_char :: "char \<Rightarrow> bool" where
  "is_b64_char c =
     (let n = (of_char c :: nat)
      in (65 \<le> n \<and> n \<le> 90) \<or> (97 \<le> n \<and> n \<le> 122) \<or> (48 \<le> n \<and> n \<le> 57)
         \<or> c = CHR ''+'' \<or> c = CHR ''/'')"

definition looks_base64 :: "string \<Rightarrow> bool" where
  "looks_base64 s =
     (let r = dropWhile is_b64_char s in r = [] \<or> r = ''='' \<or> r = ''=='')"

text \<open>
  The statements from the data URL clean-up to the decode test. \<open>Inl e\<close> is an exception
  with message \<open>e\<close>, thrown inside the \<^verbatim>\<open>try\<close> whose \<^verbatim>\<open>catch\<close> answers 500; reading
  \<^verbatim>\<open>.length\<close> of an undefined clean-up result is a TypeError.
\<close>

definition validate_audio :: "node \<Rightarrow> string \<Rightarrow> string + string" where
  "validate_audio nd ad =
     (case cleanAudioData ad of
        None \<Rightarrow> Inl ''TypeError: Cannot read properties of undefined''
      | Some clean \<Rightarrow>
          if clean = [] then Inl ''Invalid audio data: empty or null''
          else if \<not> looks_base64 clean then Inl ''Invalid audio data: not valid base64''
          else if length clean < 100 then Inl ''Invalid audio data: too short, likely corrupted''
          else if 50 * 1024 * 1024 < length clean
            then Inl ''Invalid audio data: too long, likely corrupted''
          else if decoded_length nd clean = 0
            then Inl ''Invalid audio data: base64 decoding failed''
          else Inr clean)"

subsection \<open>The fallback chain\<close>

definition sent_response :: send_response where
  "sent_response =
     \<lparr>s_status = 200, s_success = Some True, s_message = ''Voice message sent successfully'',
      s_method = ''voice message'', s_error = []\<rparr>"

definition notification_response :: send_response where
  "notification_response =
     \<lparr>s_status = 200, s_success = Some True,
      s_message = ''Voice message could not be sent as audio, but failure notification was delivered'',
      s_method = ''fallback notification'', s_error = []\<rparr>"

definition failed_response :: "string \<Rightarrow> send_response" where
  "failed_response e =
     \<lparr>s_status = 500, s_success = Some False, s_message = [], s_method = [],
      s_error = ''Failed to send voice message: '' @ e\<rparr>"

text \<open>The notice of the last tier; its leading microphone emoji is written as the four
  bytes of its UTF-8 form.\<close>

definition failureMessage :: string where
  "failureMessage =
     [CHR 0xF0, CHR 0x9F, CHR 0x8E, CHR 0xA4] @
     '' Voice message could not be sent. Please try recording a shorter message or check your connection.''"

text \<open>
  The nested \<^verbatim>\<open>try\<close>/\<^verbatim>\<open>catch\<close> blocks "Method 1" to "Method 6" and the answer after
  them. Each of the first five tiers sets \<^verbatim>\<open>sent = true\<close> when its call resolves, and the
  code after the nest answers \<open>sent_response\<close> for \<^verbatim>\<open>sent\<close>; the sixth tier answers by
  itself. The second component lists the \<^verbatim>\<open>sendMessage\<close> calls made.
\<close>

definition voice_chain ::
  "wa_client \<Rightarrow> node \<Rightarrow> string \<Rightarrow> media \<Rightarrow> string \<Rightarrow> string \<Rightarrow> string
     \<Rightarrow> send_response \<times> attempt list" where
  "voice_chain c nd formattedNumber md optimizedMimeType ext optimizedAudioData =
     (let a1 = \<lparr>a_to = formattedNumber, a_content = MediaContent md,
                a_options = VoiceOptions optimizedMimeType (''voice-message.'' @ ext)\<rparr>
      in case sendMessage c 0 a1 of
           None \<Rightarrow> (sent_response, [a1])
         | Some voiceError \<Rightarrow>
      (let a2 = \<lparr>a_to = formattedNumber, a_content = MediaContent md, a_options = NoOptions\<rparr>
       in case sendMessage c 1 a2 of
            None \<Rightarrow> (sent_response, [a1, a2])
          | Some audioError \<Rightarrow>
      (let documentMedia = \<lparr>mimetype = ''application/octet-stream'', mdata = optimizedAudioData,
                            filename = ''voice-message.'' @ ext\<rparr>;
           a3 = \<lparr>a_to = formattedNumber, a_content = MediaContent documentMedia,
                 a_options = NoOptions\<rparr>
       in case sendMessage c 2 a3 of
            None \<Rightarrow> (sent_response, [a1, a2, a3])
          | Some documentError \<Rightarrow>
      (let fallbackMedia = \<lparr>mimetype = ''audio/mpeg'', mdata = optimizedAudioData,
                            filename = ''voice-message.mp3''\<rparr>;
           a4 = \<lparr>a_to = formattedNumber, a_content = MediaContent fallbackMedia,
                 a_options = NoOptions\<rparr>
       in case sendMessage c 3 a4 of
            None \<Rightarrow> (sent_response, [a1, a2, a3, a4])
          | Some fallbackError \<Rightarrow>
      (let base64Media = \<lparr>mimetype = ''text/plain'', mdata = reencode nd optimizedAudioData,
                          filename = ''voice-message.txt''\<rparr>;
           a5 = \<lparr>a_to = formattedNumber, a_content = MediaContent base64Media,
                 a_options = NoOptions\<rparr>
       in case sendMessage c 4 a5 of
            None \<Rightarrow> (sent_response, [a1, a2, a3, a4, a5])
          | Some base64Error \<Rightarrow>
      (let a6 = \<lparr>a_to = formattedNumber, a_content = TextContent failureMessage,
                 a_options = NoOptions\<rparr>
       in case sendMessage c 5 a6 of
            None \<Rightarrow> (notification_response, [a1, a2, a3, a4, a5, a6])
          | Some finalError \<Rightarrow> (failed_response finalError, [a1, a2, a3, a4, a5, a6])))))))"

text \<open>
  The voice branch from its \<^verbatim>\<open>try\<close> on: MIME type, extension, validation (an exception
  there is answered 500 by the \<^verbatim>\<open>catch\<close> of that \<^verbatim>\<open>try\<close>), the switch from WebM to MP4 for
  a payload over 5MB, the media object (rebuilt as \<^verbatim>\<open>audio/mpeg\<close> when the first one lacks
  data or a MIME type) and the chain.
\<close>

definition voice_try ::
  "wa_client \<Rightarrow> node \<Rightarrow> string \<Rightarrow> send_request \<Rightarrow> send_response \<times> attempt list" where
  "voice_try c nd formattedNumber rq =
     (let cm = cleanMimeType (mimeType rq);
          ext = fileExtension cm
      in case validate_audio nd (audioData rq) of
           Inl e \<Rightarrow> (send_error 500 ''Failed to send message'', [])
         | Inr clean \<Rightarrow>
             (let optimizedAudioData = clean;
                  optimizedMimeType =
                    (if 5 * 1024 * 1024 < length clean \<and> cm = ''audio/webm''
                     then ''audio/mp4'' else cm);
                  first = \<lparr>mimetype = optimizedMimeType, mdata = optimizedAudioData,
                           filename = ''voice-message.'' @ ext\<rparr>;
                  md = (if mdata first = [] \<or> mimetype first = []
                        then \<lparr>mimetype = ''audio/mpeg'', mdata = optimizedAudioData,
                              filename = ''voice-message.mp3''\<rparr>
                        else first)
              in voice_chain c nd formattedNumber md optimizedMimeType ext optimizedAudioData))"

text \<open>
  The voice branch \<^verbatim>\<open>if (isVoiceMessage && audioData) { ... }\<close> up to its \<^verbatim>\<open>try\<close>: the
  client state must be empty or READY (an empty one is set to READY), and the raw audio
  data may not exceed 10MB. The branch repeats the client and session checks of the
  handler's head, which cannot fail there. The result is the answer, the \<^verbatim>\<open>sendMessage\<close>
  calls made and the state after the request.
\<close>

definition voice_branch ::
  "wa_client \<Rightarrow> node \<Rightarrow> server \<Rightarrow> string \<Rightarrow> send_request
     \<Rightarrow> send_response \<times> attempt list \<times> server" where
  "voice_branch c nd sv formattedNumber rq =
     (if clientState sv \<noteq> [] \<and> clientState sv \<noteq> ''READY'' then
        (send_error 400
           (''WhatsApp client not in ready state. Current state: '' @ clientState sv), [], sv)
      else
        (let sv1 = (if clientState sv = [] \<and> isReady sv \<and> isAuthenticated sv
                    then sv\<lparr>clientState := ''READY''\<rparr> else sv)
         in if 10 * 1024 * 1024 < length (audioData rq) then
              (send_error 413 ''Audio file too large. Please record a shorter message.'', [], sv1)
            else
              (let res = voice_try c nd formattedNumber rq
               in (fst res, snd res, sv1))))"

text \<open>The attachment branch: clean-up, the two validation throws, one
  \<^verbatim>\<open>sendMessage\<close> call; every failure is answered 500 by the branch's \<^verbatim>\<open>catch\<close>.\<close>

definition attachment_branch ::
  "wa_client \<Rightarrow> server \<Rightarrow> string \<Rightarrow> send_request
     \<Rightarrow> send_response \<times> attempt list \<times> server" where
  "attachment_branch c sv formattedNumber rq =
     (let clean = (if startsWith (attachmentData rq) ''data:''
                   then split_comma_second (attachmentData rq)
                   else Some (attachmentData rq))
      in case clean of
           None \<Rightarrow> (send_error 500 ''Failed to send attachment'', [], sv)
         | Some cl \<Rightarrow>
             if cl = [] \<or> \<not> looks_base64 cl then
               (send_error 500 ''Failed to send attachment'', [], sv)
             else
               (let a = \<lparr>a_to = formattedNumber,
                         a_content = MediaContent
                           \<lparr>mimetype = attachmentType rq, mdata = cl,
                            filename = (if attachmentName rq = [] then ''attachment''
                                        else attachmentName rq)\<rparr>,
                         a_options = (if caption rq \<noteq> [] then CaptionOption (caption rq)
                                      else NoOptions)\<rparr>
                in case sendMessage c 0 a of
                     None \<Rightarrow>
                       (\<lparr>s_status = 200, s_success = Some True,
                         s_message = ''File attachment sent successfully'',
                         s_method = [], s_error = []\<rparr>, [a], sv)
                   | Some e \<Rightarrow> (send_error 500 ''Failed to send attachment'', [a], sv)))"

text \<open>The plain text branch: one \<^verbatim>\<open>sendMessage\<close> call, a rejection is answered 500 by
  the handler's outer \<^verbatim>\<open>catch\<close>.\<close>

definition text_branch ::
  "wa_client \<Rightarrow> server \<Rightarrow> string \<Rightarrow> send_request
     \<Rightarrow> send_response \<times> attempt list \<times> server" where
  "text_branch c sv formattedNumber rq =
     (let a = \<lparr>a_to = formattedNumber, a_content = TextContent (message rq),
               a_options = NoOptions\<rparr>
      in case sendMessage c 0 a of
           None \<Rightarrow>
             (\<lparr>s_status = 200, s_success = Some True, s_message = ''Message sent successfully'',
               s_method = [], s_error = []\<rparr>, [a], sv)
         | Some e \<Rightarrow> (send_error 500 ''Failed to send message'', [a], sv))"

text \<open>
  \<^verbatim>\<open>app.post("/api/send-message", ...)\<close>: the checks of the handler's head, the formatted
  number, and the choice of the branch.
\<close>

definition send_message_handler ::
  "wa_client option \<Rightarrow> node \<Rightarrow> server \<Rightarrow> send_request
     \<Rightarrow> send_response \<times> attempt list \<times> server" where
  "send_message_handler client nd sv rq =
     (case client of
        None \<Rightarrow>
          (send_error 400
             ''WhatsApp client is not initialized. Please wait for the service to start.'', [], sv)
      | Some c \<Rightarrow>
          if \<not> isReady sv \<or> \<not> isAuthenticated sv then
            (send_error 400 ''WhatsApp client is not ready. Please wait for authentication.'',
             [], sv)
          else if number rq = []
                  \<or> (message rq = [] \<and> audioData rq = [] \<and> attachmentData rq = []) then
            (send_error 400 ''Number and message content are required'', [], sv)
          else
            (let formattedNumber = (if str_includes (number rq) ''@c.us'' then number rq
                                    else number rq @ ''@c.us'')
             in if isVoiceMessage rq \<and> audioData rq \<noteq> [] then
                  voice_branch c nd sv formattedNumber rq
                else if attachmentData rq \<noteq> [] \<and> attachmentType rq \<noteq> [] then
                  attachment_branch c sv formattedNumber rq
                else text_branch c sv formattedNumber rq))"

section \<open>Sample clients, requests and states\<close>

text \<open>Concrete values on which the theorems below are instantiated and the handlers
  evaluated. \<open>node0\<close> decodes three bytes from four base64 letters and re-encodes a string
  to itself; \<open>sending_client outcome\<close> knows no chat and lets the \<open>n\<close>-th
  \<^verbatim>\<open>sendMessage\<close> call end as \<open>outcome n\<close> says.\<close>

definition node0 :: node where
  "node0 = \<lparr>decoded_length = (\<lambda>s. (length (takeWhile is_b64_char s) * 3) div 4),
            reencode = (\<lambda>s. s)\<rparr>"

definition sending_client :: "(nat \<Rightarrow> string option) \<Rightarrow> wa_client" where
  "sending_client outcome =
     \<lparr>getChatById = (\<lambda>_. Return None), downloadMedia = (\<lambda>_. Return None),
      sendMessage = (\<lambda>n _. outcome n)\<rparr>"

definition ready_server :: server where
  "ready_server = \<lparr>isAuthenticated = True, isReady = True, clientState = ''READY'',
                   pinnedMessages = Map.empty\<rparr>"

text \<open>A base64 payload of 100 letters.\<close>

definition payload100 :: string where
  "payload100 = ''AAAAAAAAAAAAAAAAAAAAAAAAAAAAAAAAAAAAAAAAAAAAAAAAAAAAAAAAAAAAAAAAAAAAAAAAAAAAAAAAAAAAAAAAAAAAAAAAAAAA''"

definition voice_request :: "string \<Rightarrow> send_request" where
  "voice_request ad =
     \<lparr>number = ''15551234567'', message = [], audioData = ad, isVoiceMessage = True,
      mimeType = ''audio/webm;codecs=opus'', attachmentData = [], attachmentType = [],
      attachmentName = [], caption = []\<rparr>"

text \<open>\<open>mk_msg i t\<close> is a text message with id \<open>i\<close> and timestamp \<open>t\<close>; \<open>fixed_chat b\<close>
  answers every \<^verbatim>\<open>fetchMessages\<close> call with the batch \<open>b\<close>; \<open>chat_client ch\<close> resolves
  every chat id to \<open>ch\<close>.\<close>

definition mk_msg :: "string \<Rightarrow> int \<Rightarrow> msg" where
  "mk_msg i t = \<lparr>m_id = i, m_body = ''hi'', m_timestamp = t, m_fromMe = False,
                 m_from = ''15551234567@c.us'', m_to = ''me@c.us'', m_hasMedia = False,
                 m_type = ''chat''\<rparr>"

definition fixed_chat :: "msg list \<Rightarrow> chat" where
  "fixed_chat b = \<lparr>fetchMessages = (\<lambda>_. Return b)\<rparr>"

definition chat_client :: "chat \<Rightarrow> wa_client" where
  "chat_client ch =
     \<lparr>getChatById = (\<lambda>_. Return (Some ch)), downloadMedia = (\<lambda>_. Return None),
      sendMessage = (\<lambda>_ _. None)\<rparr>"

text \<open>A ready server whose chat \<^verbatim>\<open>chat1\<close> has the message \<^verbatim>\<open>m0\<close> pinned, and a
  request on that chat.\<close>

definition pinned_server :: server where
  "pinned_server =
     ready_server\<lparr>pinnedMessages := [''chat1'' \<mapsto> [to_pinned (mk_msg ''m0'' 5)]]\<rparr>"

definition pin_req :: "string \<Rightarrow> string \<Rightarrow> pin_request" where
  "pin_req mid act = \<lparr>chatId = ''chat1'', messageId = mid, action = act\<rparr>"

text \<open>A batch in oldest-first order, and two histories (oldest message first), the
  second with equal timestamps.\<close>

definition oldest_first_batch :: "msg list" where
  "oldest_first_batch = [mk_msg ''m1'' 10, mk_msg ''m2'' 20, mk_msg ''m3'' 30]"

definition two_history :: "msg list" where
  "two_history = [mk_msg ''m1'' 10, mk_msg ''m2'' 20]"

definition tied_history :: "msg list" where
  "tied_history = [mk_msg ''m1'' 5, mk_msg ''m2'' 5]"

text \<open>A ready store with no pinned message, and a client that rejects every audio
  media and every text and accepts a document, whatever the position of the call.\<close>

definition ready_store :: store where
  "ready_store = \<lparr>st_isAuthenticated = True, st_isReady = True, st_map = Map.empty,
                  st_arrays = (\<lambda>_. []), st_fresh = 0\<rparr>"

definition picky_client :: wa_client where
  "picky_client =
     \<lparr>getChatById = (\<lambda>_. Return None), downloadMedia = (\<lambda>_. Return None),
      sendMessage = (\<lambda>_ a. case a_content a of
                        MediaContent m \<Rightarrow> if mimetype m = ''application/octet-stream'' then None
                                          else Some ''rejected''
                      | TextContent t \<Rightarrow> Some ''rejected'')\<rparr>"

section \<open>Theorems\<close>

subsection \<open>Session state machine\<close>

text \<open>
  C8. Whatever the session was (any \<open>isAuthenticated\<close>, \<open>isReady\<close>, \<open>clientState\<close> and
  pinned messages), after the \<^verbatim>\<open>change_state\<close> handler has processed the signal
  CONFLICT or the signal UNLAUNCHED both \<open>isAuthenticated\<close> and \<open>isReady\<close> are false, in the
  stored state and in the status snapshot it emits.
\<close>

theorem change_state_conflict_unlaunched:
  "isAuthenticated (fst (change_state ''CONFLICT'' sv)) = False
   \<and> isReady (fst (change_state ''CONFLICT'' sv)) = False
   \<and> isAuthenticated (fst (change_state ''UNLAUNCHED'' sv)) = False
   \<and> isReady (fst (change_state ''UNLAUNCHED'' sv)) = False
   \<and> ev_isAuthenticated (snd (change_state ''CONFLICT'' sv)) = False
   \<and> ev_isReady (snd (change_state ''CONFLICT'' sv)) = False
   \<and> ev_isAuthenticated (snd (change_state ''UNLAUNCHED'' sv)) = False
   \<and> ev_isReady (snd (change_state ''UNLAUNCHED'' sv)) = False"
  by (simp add: change_state_def status_of_def)

subsection \<open>Page size\<close>

lemma parseInt10_50: "parseInt10 ''50'' = Num 50"
  by (simp add: parseInt10_def is_space_def is_digit_def digits_val_def)

lemma js_min_Num_100: "js_min x (Num 100) = Num n \<Longrightarrow> n \<le> 100"
  by (cases x) auto

lemma parseInt10_250: "parseInt10 ''250'' = Num 250"
  by (simp add: parseInt10_def is_space_def is_digit_def digits_val_def)

lemma parseInt10_abc: "parseInt10 ''abc'' = NaN"
  by (simp add: parseInt10_def is_space_def is_digit_def digits_val_def)

text \<open>
  C4, as the code has it. The page size is computed with \<^verbatim>\<open>Math.min\<close> alone: whenever it
  is a number it is at most 100, a parsed value above 100 becomes 100, an absent or
  empty \<open>limit\<close> gives 50, and every other parsed value is passed on unchanged, NaN
  included. Nothing raises a value below 1.
\<close>

theorem pageSize_upper_clamp:
  "(pageSize limit = Num n \<longrightarrow> n \<le> 100)
   \<and> pageSize None = Num 50
   \<and> pageSize (Some []) = Num 50
   \<and> (s \<noteq> [] \<and> parseInt10 s = Num k \<longrightarrow> pageSize (Some s) = Num (min k 100))
   \<and> (s \<noteq> [] \<and> parseInt10 s = NaN \<longrightarrow> pageSize (Some s) = NaN)"
  by (auto simp: pageSize_def parseInt10_50 dest: js_min_Num_100)

theorem pageSize_upper_clamp_witness:
  "parseInt10 ''250'' = Num 250 \<and> pageSize (Some ''250'') = Num 100
   \<and> parseInt10 ''abc'' = NaN \<and> pageSize (Some ''abc'') = NaN"
  using pageSize_upper_clamp [of "Some ''250''" 100 "''250''" 250]
        pageSize_upper_clamp [of "Some ''abc''" 0 "''abc''" 0]
        parseInt10_250 parseInt10_abc
  by simp

text \<open>
  C4 as stated fails: for the limits \<^verbatim>\<open>0\<close>, \<^verbatim>\<open>-5\<close> and \<^verbatim>\<open>abc\<close> the page size is 0, -5
  and NaN, none of them in the interval from 1 to 100.
\<close>

theorem pageSize_below_one_counterexample:
  "pageSize (Some ''0'') = Num 0 \<and> pageSize (Some ''-5'') = Num (-5)
   \<and> pageSize (Some ''abc'') = NaN"
  by (simp add: pageSize_def parseInt10_def is_space_def is_digit_def digits_val_def)

subsection \<open>MIME normalisation\<close>

text \<open>\<open>str_includes\<close> is the substring test.\<close>

lemma str_includes_iff: "str_includes s sub \<longleftrightarrow> (\<exists>a b. s = a @ sub @ b)"
proof (induction s)
  case Nil
  then show ?case by auto
next
  case (Cons c cs)
  have "startsWith (c # cs) sub \<longleftrightarrow> (\<exists>b. c # cs = sub @ b)"
    unfolding startsWith_def
    by (metis append_eq_conv_conj)
  moreover have "(\<exists>a b. c # cs = a @ sub @ b)
      \<longleftrightarrow> (\<exists>b. c # cs = sub @ b) \<or> (\<exists>a b. cs = a @ sub @ b)"
    apply (rule iffI)
    subgoal by (metis append_Nil append_eq_Cons_conv)
    subgoal by (metis append_Cons append_Nil)
    done
  ultimately show ?case using Cons.IH by simp
qed

text \<open>
  C9, as the code has it. The normalised type and the extension derived from it are one
  of the five pairs webm/webm, mp4/m4a, wav/wav, ogg/ogg, mpeg/mp3. The type is chosen
  by the first test that succeeds, in this order: the string contains \<^verbatim>\<open>webm\<close>; it
  contains \<^verbatim>\<open>mp4\<close> or \<^verbatim>\<open>m4a\<close>; \<^verbatim>\<open>wav\<close>; \<^verbatim>\<open>ogg\<close>; \<^verbatim>\<open>mp3\<close> (giving
  \<^verbatim>\<open>audio/mpeg\<close>); a string with none of these tokens gives \<^verbatim>\<open>audio/webm\<close>.
\<close>

theorem cleanMimeType_whitelist:
  "(cleanMimeType mt, fileExtension (cleanMimeType mt))
     \<in> {(''audio/webm'', ''webm''), (''audio/mp4'', ''m4a''), (''audio/wav'', ''wav''),
        (''audio/ogg'', ''ogg''), (''audio/mpeg'', ''mp3'')}
   \<and> (str_includes mt ''webm'' \<longrightarrow> cleanMimeType mt = ''audio/webm'')
   \<and> (\<not> str_includes mt ''webm'' \<and> (str_includes mt ''mp4'' \<or> str_includes mt ''m4a'')
        \<longrightarrow> cleanMimeType mt = ''audio/mp4'')
   \<and> (\<not> str_includes mt ''webm'' \<and> \<not> str_includes mt ''mp4'' \<and> \<not> str_includes mt ''m4a''
        \<and> str_includes mt ''wav'' \<longrightarrow> cleanMimeType mt = ''audio/wav'')
   \<and> (\<not> str_includes mt ''webm'' \<and> \<not> str_includes mt ''mp4'' \<and> \<not> str_includes mt ''m4a''
        \<and> \<not> str_includes mt ''wav'' \<and> str_includes mt ''ogg''
        \<longrightarrow> cleanMimeType mt = ''audio/ogg'')
   \<and> (\<not> str_includes mt ''webm'' \<and> \<not> str_includes mt ''mp4'' \<and> \<not> str_includes mt ''m4a''
        \<and> \<not> str_includes mt ''wav'' \<and> \<not> str_includes mt ''ogg'' \<and> str_includes mt ''mp3''
        \<longrightarrow> cleanMimeType mt = ''audio/mpeg'')
   \<and> (\<not> str_includes mt ''webm'' \<and> \<not> str_includes mt ''mp4'' \<and> \<not> str_includes mt ''m4a''
        \<and> \<not> str_includes mt ''wav'' \<and> \<not> str_includes mt ''ogg'' \<and> \<not> str_includes mt ''mp3''
        \<longrightarrow> cleanMimeType mt = ''audio/webm'')"
proof (cases "mt = []")
  case True
  then show ?thesis
    by (simp add: cleanMimeType_def fileExtension_def startsWith_def)
next
  case False
  then show ?thesis
    by (simp add: cleanMimeType_def fileExtension_def)
qed

theorem cleanMimeType_whitelist_witness:
  "str_includes ''audio/mp3'' ''mp3'' \<and> cleanMimeType ''audio/mp3'' = ''audio/mpeg''
   \<and> fileExtension (cleanMimeType ''audio/mp3'') = ''mp3''
   \<and> str_includes ''audio/webm;codecs=opus'' ''webm''
   \<and> cleanMimeType ''audio/webm;codecs=opus'' = ''audio/webm''"
  using cleanMimeType_whitelist [of "''audio/mp3''"]
        cleanMimeType_whitelist [of "''audio/webm;codecs=opus''"]
  by (simp add: startsWith_def fileExtension_def)

text \<open>
  C9 as stated fails: \<^verbatim>\<open>audio/mpeg\<close> contains the format name \<^verbatim>\<open>mpeg\<close> and is
  normalised to \<^verbatim>\<open>audio/webm\<close>, and a string that contains both \<^verbatim>\<open>ogg\<close> and \<^verbatim>\<open>webm\<close> is
  normalised to \<^verbatim>\<open>audio/webm\<close>, not to \<^verbatim>\<open>audio/ogg\<close>.
\<close>

theorem cleanMimeType_mpeg_counterexample:
  "str_includes ''audio/mpeg'' ''mpeg'' \<and> cleanMimeType ''audio/mpeg'' = ''audio/webm''
   \<and> str_includes ''audio/ogg; codecs=webm'' ''ogg''
   \<and> cleanMimeType ''audio/ogg; codecs=webm'' = ''audio/webm''"
  by (simp add: cleanMimeType_def startsWith_def)

subsection \<open>Voice notes: validation\<close>

lemma validate_audio_short:
  "cleanAudioData ad = Some clean \<Longrightarrow> length clean < 100 \<Longrightarrow> \<exists>e. validate_audio nd ad = Inl e"
  by (simp add: validate_audio_def)

lemma voice_try_short:
  "cleanAudioData (audioData rq) = Some clean \<Longrightarrow> length clean < 100
   \<Longrightarrow> voice_try c nd fn rq = (send_error 500 ''Failed to send message'', [])"
  using validate_audio_short [of "audioData rq" clean nd]
  by (auto simp: voice_try_def Let_def)

lemma validate_audio_Inr:
  "validate_audio nd ad = Inr clean
   \<Longrightarrow> clean \<noteq> [] \<and> 100 \<le> length clean \<and> cleanAudioData ad = Some clean"
  by (auto simp: validate_audio_def split: option.splits if_splits)

text \<open>
  C3, as the code has it. A voice-note request whose cleaned payload has fewer than 100
  characters makes no \<^verbatim>\<open>sendMessage\<close> call, and its answer is an error (status 400, 413
  or 500, no \<^verbatim>\<open>success\<close> field). When the session and request preconditions hold (client
  present, ready, authenticated, a number, client state empty or READY, raw audio data
  within 10MB), the validation exception lands in the \<^verbatim>\<open>catch\<close> of the voice branch and
  the answer is status 500 with the error \<^verbatim>\<open>Failed to send message\<close>.
\<close>

theorem short_payload_rejected_500:
  assumes "isVoiceMessage rq" and "audioData rq \<noteq> []"
    and "cleanAudioData (audioData rq) = Some clean" and "length clean < 100"
  shows "fst (snd (send_message_handler client nd sv rq)) = []
    \<and> s_status (fst (send_message_handler client nd sv rq)) \<in> {400, 413, 500}
    \<and> s_success (fst (send_message_handler client nd sv rq)) = None
    \<and> (client \<noteq> None \<and> isReady sv \<and> isAuthenticated sv \<and> number rq \<noteq> []
         \<and> (clientState sv = [] \<or> clientState sv = ''READY'')
         \<and> length (audioData rq) \<le> 10 * 1024 * 1024
        \<longrightarrow> fst (send_message_handler client nd sv rq)
              = send_error 500 ''Failed to send message'')"
proof -
  have vt: "voice_try c nd fn rq = (send_error 500 ''Failed to send message'', [])" for c fn
    using voice_try_short [OF assms(3,4)] .
  have vb: "fst (snd (voice_branch c nd sv fn rq)) = []
      \<and> s_status (fst (voice_branch c nd sv fn rq)) \<in> {400, 413, 500}
      \<and> s_success (fst (voice_branch c nd sv fn rq)) = None
      \<and> ((clientState sv = [] \<or> clientState sv = ''READY'')
            \<and> length (audioData rq) \<le> 10 * 1024 * 1024
          \<longrightarrow> fst (voice_branch c nd sv fn rq) = send_error 500 ''Failed to send message'')"
    for c fn
    by (auto simp: voice_branch_def Let_def vt send_error_def)
  show ?thesis
  proof (cases client)
    case None
    then show ?thesis
      by (simp add: send_message_handler_def send_error_def)
  next
    case (Some c)
    show ?thesis
      using assms(1,2) vb [of c] unfolding Some send_message_handler_def Let_def
      by (simp add: send_error_def)
  qed
qed

theorem short_payload_rejected_500_witness:
  "cleanAudioData ''data:audio/webm;base64,AAAA'' = Some ''AAAA''
   \<and> fst (snd (send_message_handler (Some (sending_client (\<lambda>n. None))) node0 ready_server
               (voice_request ''data:audio/webm;base64,AAAA''))) = []
   \<and> fst (send_message_handler (Some (sending_client (\<lambda>n. None))) node0 ready_server
               (voice_request ''data:audio/webm;base64,AAAA''))
       = send_error 500 ''Failed to send message''"
proof -
  have c: "cleanAudioData (audioData (voice_request ''data:audio/webm;base64,AAAA'')) = Some ''AAAA''"
    by (simp add: cleanAudioData_def startsWith_def split_comma_second_def voice_request_def)
  have l: "length ''AAAA'' < 100"
    by simp
  have v: "isVoiceMessage (voice_request ''data:audio/webm;base64,AAAA'')"
    and a: "audioData (voice_request ''data:audio/webm;base64,AAAA'') \<noteq> []"
    by (simp_all add: voice_request_def)
  show ?thesis
    using short_payload_rejected_500 [OF v a c l, of "Some (sending_client (\<lambda>n. None))" node0
        ready_server] c
    by (simp add: ready_server_def voice_request_def)
qed

text \<open>
  C3 as stated fails: with the session ready and the four-character payload \<^verbatim>\<open>AAAA\<close> the
  answer has status 500, not 400 (and no delivery attempt is made).
\<close>

theorem short_payload_status_counterexample:
  "cleanAudioData ''AAAA'' = Some ''AAAA''
   \<and> s_status (fst (send_message_handler (Some (sending_client (\<lambda>n. None))) node0 ready_server
                  (voice_request ''AAAA''))) = 500
   \<and> fst (snd (send_message_handler (Some (sending_client (\<lambda>n. None))) node0 ready_server
               (voice_request ''AAAA''))) = []"
  by (simp add: send_message_handler_def voice_branch_def voice_try_def validate_audio_def
      cleanAudioData_def startsWith_def voice_request_def looks_base64_def is_b64_char_def ready_server_def
      send_error_def Let_def)

subsection \<open>Voice notes: the fallback chain\<close>

lemma voice_chain_third:
  assumes "sendMessage c 0 \<lparr>a_to = fn, a_content = MediaContent md,
                             a_options = VoiceOptions om (''voice-message.'' @ ext)\<rparr> = Some e1"
    and "sendMessage c 1 \<lparr>a_to = fn, a_content = MediaContent md, a_options = NoOptions\<rparr> = Some e2"
    and "sendMessage c 2 \<lparr>a_to = fn, a_content = MediaContent
              \<lparr>mimetype = ''application/octet-stream'', mdata = d,
               filename = ''voice-message.'' @ ext\<rparr>, a_options = NoOptions\<rparr> = None"
  shows "voice_chain c nd fn md om ext d =
    (sent_response,
     [\<lparr>a_to = fn, a_content = MediaContent md, a_options = VoiceOptions om (''voice-message.'' @ ext)\<rparr>,
      \<lparr>a_to = fn, a_content = MediaContent md, a_options = NoOptions\<rparr>,
      \<lparr>a_to = fn, a_content = MediaContent \<lparr>mimetype = ''application/octet-stream'', mdata = d,
             filename = ''voice-message.'' @ ext\<rparr>, a_options = NoOptions\<rparr>])"
  using assms by (simp add: voice_chain_def Let_def)

text \<open>
  C2, as the code has it. In a voice-note send that passes the preconditions and the
  validation, let \<open>a1\<close> be the call of tier (a) (the media with the voice options), \<open>a2\<close>
  the call of tier (b) (the same media alone) and \<open>a3\<close> the call of tier (c) (the payload
  as an \<^verbatim>\<open>application/octet-stream\<close> document), each to the formatted number. When \<open>a1\<close>
  and \<open>a2\<close> fail and \<open>a3\<close> succeeds, exactly these three calls are made, in this order,
  and the answer is status 200, \<^verbatim>\<open>success: true\<close>, with the fixed method indicator
  \<^verbatim>\<open>voice message\<close>.
\<close>

theorem document_tier_reports_voice_method:
  assumes "isReady sv" and "isAuthenticated sv" and "number rq \<noteq> []"
    and "isVoiceMessage rq" and "audioData rq \<noteq> []"
    and "clientState sv = [] \<or> clientState sv = ''READY''"
    and "length (audioData rq) \<le> 10 * 1024 * 1024"
    and "validate_audio nd (audioData rq) = Inr clean"
    and "fn = (if str_includes (number rq) ''@c.us'' then number rq else number rq @ ''@c.us'')"
    and "ext = fileExtension (cleanMimeType (mimeType rq))"
    and "om = (if 5 * 1024 * 1024 < length clean \<and> cleanMimeType (mimeType rq) = ''audio/webm''
               then ''audio/mp4'' else cleanMimeType (mimeType rq))"
    and "md = \<lparr>mimetype = om, mdata = clean, filename = ''voice-message.'' @ ext\<rparr>"
    and "a1 = \<lparr>a_to = fn, a_content = MediaContent md,
                a_options = VoiceOptions om (''voice-message.'' @ ext)\<rparr>"
    and "a2 = \<lparr>a_to = fn, a_content = MediaContent md, a_options = NoOptions\<rparr>"
    and "a3 = \<lparr>a_to = fn,
                a_content = MediaContent \<lparr>mimetype = ''application/octet-stream'', mdata = clean,
                                            filename = ''voice-message.'' @ ext\<rparr>,
                a_options = NoOptions\<rparr>"
    and "sendMessage c 0 a1 = Some e1" and "sendMessage c 1 a2 = Some e2"
    and "sendMessage c 2 a3 = None"
  shows "fst (send_message_handler (Some c) nd sv rq)
           = \<lparr>s_status = 200, s_success = Some True,
              s_message = ''Voice message sent successfully'',
              s_method = ''voice message'', s_error = []\<rparr>
    \<and> fst (snd (send_message_handler (Some c) nd sv rq)) = [a1, a2, a3]"
proof -
  have ne: "clean \<noteq> []" using validate_audio_Inr [OF assms(8)] by simp
  have cm: "cleanMimeType (mimeType rq) \<noteq> []"
    by (auto simp: cleanMimeType_def Let_def)
  have vt: "voice_try c nd fn rq = voice_chain c nd fn md om ext clean"
    unfolding assms(12) assms(11) assms(10)
    using assms(8) ne cm by (simp add: voice_try_def Let_def)
  have h: "send_message_handler (Some c) nd sv rq =
     (fst (voice_try c nd fn rq), snd (voice_try c nd fn rq),
      if clientState sv = [] then sv\<lparr>clientState := ''READY''\<rparr> else sv)"
    using assms(1-7)
    by (auto simp: send_message_handler_def voice_branch_def Let_def assms(9) [symmetric])
  have ch: "voice_chain c nd fn md om ext clean = (sent_response, [a1, a2, a3])"
    unfolding assms(13,14,15)
    using assms(16,17,18) unfolding assms(13,14,15)
    by (rule voice_chain_third)
  show ?thesis
    unfolding h vt ch by (simp add: sent_response_def)
qed

theorem document_tier_reports_voice_method_witness:
  "sendMessage picky_client 0
      \<lparr>a_to = ''15551234567@c.us'',
       a_content = MediaContent \<lparr>mimetype = ''audio/webm'', mdata = payload100,
                                   filename = ''voice-message.webm''\<rparr>,
       a_options = VoiceOptions ''audio/webm'' ''voice-message.webm''\<rparr> = Some ''rejected''
   \<and> sendMessage picky_client 1
      \<lparr>a_to = ''15551234567@c.us'',
       a_content = MediaContent \<lparr>mimetype = ''audio/webm'', mdata = payload100,
                                   filename = ''voice-message.webm''\<rparr>,
       a_options = NoOptions\<rparr> = Some ''rejected''
   \<and> sendMessage picky_client 2
      \<lparr>a_to = ''15551234567@c.us'',
       a_content = MediaContent \<lparr>mimetype = ''application/octet-stream'', mdata = payload100,
                                   filename = ''voice-message.webm''\<rparr>,
       a_options = NoOptions\<rparr> = None
   \<and> fst (send_message_handler (Some picky_client) node0 ready_server (voice_request payload100))
     = \<lparr>s_status = 200, s_success = Some True, s_message = ''Voice message sent successfully'',
        s_method = ''voice message'', s_error = []\<rparr>
   \<and> fst (snd (send_message_handler (Some picky_client) node0 ready_server
                 (voice_request payload100)))
     = [\<lparr>a_to = ''15551234567@c.us'',
         a_content = MediaContent \<lparr>mimetype = ''audio/webm'', mdata = payload100,
                                     filename = ''voice-message.webm''\<rparr>,
         a_options = VoiceOptions ''audio/webm'' ''voice-message.webm''\<rparr>,
        \<lparr>a_to = ''15551234567@c.us'',
         a_content = MediaContent \<lparr>mimetype = ''audio/webm'', mdata = payload100,
                                     filename = ''voice-message.webm''\<rparr>,
         a_options = NoOptions\<rparr>,
        \<lparr>a_to = ''15551234567@c.us'',
         a_content = MediaContent \<lparr>mimetype = ''application/octet-stream'', mdata = payload100,
                                     filename = ''voice-message.webm''\<rparr>,
         a_options = NoOptions\<rparr>]"
proof -
  let ?rq = "voice_request payload100"
  let ?md = "\<lparr>mimetype = ''audio/webm'', mdata = payload100, filename = ''voice-message.webm''\<rparr>"
  let ?a1 = "\<lparr>a_to = ''15551234567@c.us'', a_content = MediaContent ?md,
              a_options = VoiceOptions ''audio/webm'' ''voice-message.webm''\<rparr>"
  let ?a2 = "\<lparr>a_to = ''15551234567@c.us'', a_content = MediaContent ?md, a_options = NoOptions\<rparr>"
  let ?a3 = "\<lparr>a_to = ''15551234567@c.us'',
              a_content = MediaContent \<lparr>mimetype = ''application/octet-stream'',
                            mdata = payload100, filename = ''voice-message.webm''\<rparr>,
              a_options = NoOptions\<rparr>"
  have r: "isReady ready_server" "isAuthenticated ready_server"
    and cs: "clientState ready_server = [] \<or> clientState ready_server = ''READY''"
    by (simp_all add: ready_server_def)
  have n: "number ?rq \<noteq> []" and v: "isVoiceMessage ?rq"
    by (simp_all add: voice_request_def)
  have ne: "audioData ?rq \<noteq> []"
    by (simp add: voice_request_def payload100_def)
  have l: "length (audioData ?rq) \<le> 10 * 1024 * 1024"
    by (simp add: voice_request_def payload100_def)
  have va: "validate_audio node0 (audioData ?rq) = Inr payload100"
    by (simp add: validate_audio_def cleanAudioData_def startsWith_def voice_request_def
        payload100_def looks_base64_def is_b64_char_def node0_def)
  have fn: "''15551234567@c.us'' = (if str_includes (number ?rq) ''@c.us'' then number ?rq
                                    else number ?rq @ ''@c.us'')"
    by (simp add: voice_request_def startsWith_def)
  have cmt: "cleanMimeType (mimeType ?rq) = ''audio/webm''"
    by (simp add: voice_request_def cleanMimeType_def startsWith_def)
  have ext: "''webm'' = fileExtension (cleanMimeType (mimeType ?rq))"
    by (simp add: cmt fileExtension_def)
  have lp: "length payload100 = 100"
    by (simp add: payload100_def)
  have om: "''audio/webm'' = (if 5 * 1024 * 1024 < length payload100
                  \<and> cleanMimeType (mimeType ?rq) = ''audio/webm''
               then ''audio/mp4'' else cleanMimeType (mimeType ?rq))"
    by (simp add: cmt lp)
  have md: "?md = \<lparr>mimetype = ''audio/webm'', mdata = payload100,
                   filename = ''voice-message.'' @ ''webm''\<rparr>"
    by simp
  have a1: "?a1 = \<lparr>a_to = ''15551234567@c.us'', a_content = MediaContent ?md,
                a_options = VoiceOptions ''audio/webm'' (''voice-message.'' @ ''webm'')\<rparr>"
    by simp
  have a2: "?a2 = \<lparr>a_to = ''15551234567@c.us'', a_content = MediaContent ?md, a_options = NoOptions\<rparr>"
    by simp
  have a3: "?a3 = \<lparr>a_to = ''15551234567@c.us'',
                a_content = MediaContent \<lparr>mimetype = ''application/octet-stream'', mdata = payload100,
                                            filename = ''voice-message.'' @ ''webm''\<rparr>,
                a_options = NoOptions\<rparr>"
    by simp
  have s0: "sendMessage picky_client 0 ?a1 = Some ''rejected''"
    and s1: "sendMessage picky_client 1 ?a2 = Some ''rejected''"
    and s2: "sendMessage picky_client 2 ?a3 = None"
    by (simp_all add: picky_client_def)
  show ?thesis
    using document_tier_reports_voice_method [OF r n v ne cs l va fn ext om md a1 a2 a3 s0 s1 s2]
      s0 s1 s2
    by simp
qed

text \<open>
  C2 as stated fails: when the first two calls are rejected and the document call
  succeeds, the method indicator is \<^verbatim>\<open>voice message\<close> and the whole answer equals the one
  given when the first call (the voice message itself) succeeds, so the indicator does
  not identify the document tier.
\<close>

theorem document_tier_method_counterexample:
  "s_method (fst (send_message_handler
       (Some (sending_client (\<lambda>n. if n < 2 then Some ''rejected'' else None)))
       node0 ready_server (voice_request payload100))) = ''voice message''
   \<and> map (\<lambda>a. case a_content a of MediaContent m \<Rightarrow> mimetype m | TextContent t \<Rightarrow> t)
        (fst (snd (send_message_handler
       (Some (sending_client (\<lambda>n. if n < 2 then Some ''rejected'' else None)))
       node0 ready_server (voice_request payload100))))
      = [''audio/webm'', ''audio/webm'', ''application/octet-stream'']
   \<and> fst (send_message_handler
       (Some (sending_client (\<lambda>n. if n < 2 then Some ''rejected'' else None)))
       node0 ready_server (voice_request payload100))
     = fst (send_message_handler (Some (sending_client (\<lambda>n. None)))
       node0 ready_server (voice_request payload100))"
  by (simp add: send_message_handler_def voice_branch_def voice_try_def voice_chain_def
      validate_audio_def
      cleanAudioData_def startsWith_def voice_request_def payload100_def looks_base64_def
      is_b64_char_def node0_def ready_server_def sending_client_def cleanMimeType_def
      fileExtension_def sent_response_def Let_def)

subsection \<open>Pinned messages\<close>

lemma js_find_None_iff: "js_find p xs = None \<longleftrightarrow> (\<forall>x\<in>set xs. \<not> p x)"
  by (induction xs) auto

lemma js_find_Some: "js_find p xs = Some x \<Longrightarrow> p x"
  by (induction xs) (auto split: if_splits)

lemma find_message_id: "find_message client cid mid = Return (Some m) \<Longrightarrow> m_id m = mid"
  by (auto simp: find_message_def dest: js_find_Some split: option.splits js.splits)

lemma pin_handler_flags:
  "isReady (snd (pin_message_handler client sv rq)) = isReady sv
   \<and> isAuthenticated (snd (pin_message_handler client sv rq)) = isAuthenticated sv"
  by (simp add: pin_message_handler_def pin_ok_def pin_failed_def Let_def
      split: js.split option.split)

text \<open>The pinned list of every chat after one request, in terms of the list before.\<close>

lemma pinned_after:
  "pinned_of (snd (pin_message_handler client sv rq)) cid =
     (if isReady sv \<and> isAuthenticated sv \<and> chatId rq \<noteq> [] \<and> messageId rq \<noteq> []
         \<and> action rq \<noteq> [] \<and> cid = chatId rq
      then (if action rq = ''pin'' then
              (if messageId rq \<in> p_id ` set (pinned_of sv cid) then pinned_of sv cid
               else (case find_message client (chatId rq) (messageId rq) of
                       Return (Some m) \<Rightarrow> pinned_of sv cid @ [to_pinned m]
                     | _ \<Rightarrow> pinned_of sv cid))
            else if action rq = ''unpin''
              then filter (\<lambda>p. p_id p \<noteq> messageId rq) (pinned_of sv cid)
            else pinned_of sv cid)
      else pinned_of sv cid)"
  by (auto simp: pin_message_handler_def pin_ok_def pin_failed_def Let_def pinned_of_def
      js_find_None_iff image_iff split: js.split option.split)

text \<open>One request, run from its first statement to its response with no other request
  in between, keeps a list without duplicate ids so.\<close>

lemma pin_preserves_distinct:
  assumes "distinct (map p_id (pinned_of sv cid))"
  shows "distinct (map p_id (pinned_of (snd (pin_message_handler client sv rq)) cid))"
proof -
  have app: "distinct (map p_id (pinned_of sv cid @ [to_pinned m]))"
    if "find_message client (chatId rq) (messageId rq) = Return (Some m)"
      and "messageId rq \<notin> p_id ` set (pinned_of sv cid)" for m
    using assms that find_message_id [OF that(1)] by (simp add: to_pinned_def)
  have flt: "distinct (map p_id (filter (\<lambda>p. p_id p \<noteq> messageId rq) (pinned_of sv cid)))"
    using assms by (rule distinct_map_filter)
  show ?thesis
    unfolding pinned_after using assms app flt
    by (auto split: js.split option.split)
qed


text \<open>
  C7, as the code has it. When the chat's pinned list has no entry with the message id,
  a pin request for that id followed by an unpin request for it leaves the pinned list
  of every chat as it was before the pin, whatever the clients answer and whatever
  the session flags are.
\<close>

theorem pin_then_unpin_restores:
  assumes "messageId rq \<notin> p_id ` set (pinned_of sv (chatId rq))" and "action rq = ''pin''"
  shows "pinned_of (snd (pin_message_handler client2 (snd (pin_message_handler client1 sv rq))
                          (rq\<lparr>action := ''unpin''\<rparr>))) cid
         = pinned_of sv cid"
proof -
  let ?sv1 = "snd (pin_message_handler client1 sv rq)"
  have keep: "filter (\<lambda>p. p_id p \<noteq> messageId rq) (pinned_of sv (chatId rq)) = pinned_of sv (chatId rq)"
    using assms(1) by (force simp: filter_id_conv)
  have drop: "filter (\<lambda>p. p_id p \<noteq> messageId rq) [to_pinned m] = []"
    if "find_message client1 (chatId rq) (messageId rq) = Return (Some m)" for m
    using find_message_id [OF that] by (simp add: to_pinned_def)
  have one: "filter (\<lambda>p. p_id p \<noteq> messageId rq) (pinned_of ?sv1 (chatId rq))
             = pinned_of sv (chatId rq)"
    unfolding pinned_after [of client1 sv rq] using assms keep drop
    by (auto split: js.split option.split)
  have other: "cid \<noteq> chatId rq \<Longrightarrow> pinned_of ?sv1 cid = pinned_of sv cid"
    unfolding pinned_after [of client1 sv rq] by simp
  have rejected: "\<not> (isReady sv \<and> isAuthenticated sv \<and> chatId rq \<noteq> [] \<and> messageId rq \<noteq> [])
      \<Longrightarrow> pinned_of ?sv1 cid = pinned_of sv cid"
    unfolding pinned_after [of client1 sv rq] by auto
  show ?thesis
    unfolding pinned_after [of client2 ?sv1] using one other rejected pin_handler_flags [of client1 sv rq]
    by auto
qed

theorem pin_then_unpin_restores_witness:
  "''m1'' \<notin> p_id ` set (pinned_of pinned_server ''chat1'')
   \<and> pinned_of (snd (pin_message_handler (Some (chat_client (fixed_chat [mk_msg ''m1'' 10])))
                       pinned_server (pin_req ''m1'' ''pin''))) ''chat1''
       = [to_pinned (mk_msg ''m0'' 5), to_pinned (mk_msg ''m1'' 10)]
   \<and> pinned_of (snd (pin_message_handler (Some (chat_client (fixed_chat [mk_msg ''m1'' 10])))
        (snd (pin_message_handler (Some (chat_client (fixed_chat [mk_msg ''m1'' 10])))
                pinned_server (pin_req ''m1'' ''pin'')))
        (pin_req ''m1'' ''unpin''))) ''chat1''
       = pinned_of pinned_server ''chat1''"
proof -
  let ?c = "Some (chat_client (fixed_chat [mk_msg ''m1'' 10]))"
  have p: "pinned_of pinned_server ''chat1'' = [to_pinned (mk_msg ''m0'' 5)]"
    by (simp add: pinned_server_def pinned_of_def ready_server_def)
  have a: "messageId (pin_req ''m1'' ''pin'') \<notin> p_id ` set (pinned_of pinned_server (chatId (pin_req ''m1'' ''pin'')))"
    by (simp add: pin_req_def p to_pinned_def mk_msg_def)
  have b: "action (pin_req ''m1'' ''pin'') = ''pin''"
    by (simp add: pin_req_def)
  have u: "(pin_req ''m1'' ''pin'')\<lparr>action := ''unpin''\<rparr> = pin_req ''m1'' ''unpin''"
    by (simp add: pin_req_def)
  have f: "find_message ?c ''chat1'' ''m1'' = Return (Some (mk_msg ''m1'' 10))"
    by (simp add: find_message_def chat_client_def fixed_chat_def mk_msg_def)
  have mid: "pinned_of (snd (pin_message_handler ?c pinned_server (pin_req ''m1'' ''pin''))) ''chat1''
       = [to_pinned (mk_msg ''m0'' 5), to_pinned (mk_msg ''m1'' 10)]"
    unfolding pinned_after p using f
    by (simp add: pin_req_def pinned_server_def ready_server_def to_pinned_def mk_msg_def)
  show ?thesis
    using pin_then_unpin_restores [OF a b, of ?c ?c "''chat1''"] a mid
    by (simp add: u pin_req_def)
qed

text \<open>
  C7 as stated fails for a message that is pinned already: the pin request changes
  nothing, the unpin request removes the entry, and the list that held \<^verbatim>\<open>m0\<close> before
  the pin is empty afterwards.
\<close>

theorem pin_already_pinned_counterexample:
  "pinned_of pinned_server ''chat1'' = [to_pinned (mk_msg ''m0'' 5)]
   \<and> pinned_of (snd (pin_message_handler (Some (chat_client (fixed_chat [mk_msg ''m0'' 5])))
        (snd (pin_message_handler (Some (chat_client (fixed_chat [mk_msg ''m0'' 5])))
                pinned_server (pin_req ''m0'' ''pin'')))
        (pin_req ''m0'' ''unpin''))) ''chat1'' = []"
proof -
  let ?c = "Some (chat_client (fixed_chat [mk_msg ''m0'' 5]))"
  let ?s1 = "snd (pin_message_handler ?c pinned_server (pin_req ''m0'' ''pin''))"
  have p: "pinned_of pinned_server ''chat1'' = [to_pinned (mk_msg ''m0'' 5)]"
    by (simp add: pinned_server_def pinned_of_def ready_server_def)
  have p1: "pinned_of ?s1 ''chat1'' = [to_pinned (mk_msg ''m0'' 5)]"
    unfolding pinned_after p
    by (simp add: pin_req_def pinned_server_def ready_server_def to_pinned_def mk_msg_def)
  have p2: "pinned_of (snd (pin_message_handler ?c ?s1 (pin_req ''m0'' ''unpin''))) ''chat1'' = []"
    unfolding pinned_after [of ?c ?s1] p1
    using pin_handler_flags [of ?c pinned_server "pin_req ''m0'' ''pin''"]
    by (simp add: pin_req_def pinned_server_def ready_server_def to_pinned_def mk_msg_def)
  show ?thesis
    using p p2 by simp
qed

subsection \<open>Pinned messages: overlapping requests\<close>

lemma pinned_of_view: "pinned_of (view s cs) cid = store_pinned s cid"
  by (simp add: pinned_of_def view_def store_pinned_def split: option.split)

lemma ensure_array_props:
  assumes "store_wf s"
  shows "store_wf (snd (ensure_array s cid))"
    and "st_map (snd (ensure_array s cid)) cid = Some (fst (ensure_array s cid))"
    and "store_pinned (snd (ensure_array s cid)) c = store_pinned s c"
    and "st_isReady (snd (ensure_array s cid)) = st_isReady s"
    and "st_isAuthenticated (snd (ensure_array s cid)) = st_isAuthenticated s"
  using assms
  by (auto simp: ensure_array_def store_wf_def store_pinned_def less_Suc_eq
      split: option.splits)

text \<open>
  Without overlap the store model is the handler: from a store the server can have, a
  request run alone gives the answer of \<open>pin_message_handler\<close> and a store that stands
  for the state it leaves, chat by chat.
\<close>

lemma handler_response:
  "fst (pin_message_handler client sv rq) =
     (if \<not> isReady sv \<or> \<not> isAuthenticated sv then
        \<lparr>pr_status = 400, pr_success = False, pr_pinnedMessages = [], pr_message = [],
          pr_error = ''WhatsApp client is not ready. Please wait for authentication.''\<rparr>
      else if chatId rq = [] \<or> messageId rq = [] \<or> action rq = [] then
        \<lparr>pr_status = 400, pr_success = False, pr_pinnedMessages = [], pr_message = [],
          pr_error = ''Chat ID, message ID, and action are required''\<rparr>
      else if action rq = ''pin'' \<and> messageId rq \<notin> p_id ` set (pinned_of sv (chatId rq))
              \<and> (\<exists>e. find_message client (chatId rq) (messageId rq) = Throw e) then
        \<lparr>pr_status = 500, pr_success = False, pr_pinnedMessages = [], pr_message = [],
          pr_error = ''Failed to pin/unpin message''\<rparr>
      else
        \<lparr>pr_status = 200, pr_success = True,
         pr_pinnedMessages = pinned_of (snd (pin_message_handler client sv rq)) (chatId rq),
         pr_message = ''Message '' @ action rq @ ''ed successfully'', pr_error = []\<rparr>)"
  by (auto simp: pin_message_handler_def pin_ok_def pin_failed_def Let_def pinned_of_def
      js_find_None_iff image_iff split: js.split option.split)

lemma wf_lt: "store_wf s \<Longrightarrow> st_map s c = Some r \<Longrightarrow> r < st_fresh s"
  by (simp add: store_wf_def)

lemma wf_inj: "store_wf s \<Longrightarrow> st_map s c1 = Some r \<Longrightarrow> st_map s c2 = Some r \<Longrightarrow> c1 = c2"
  unfolding store_wf_def by blast

lemma store_pinned_Some: "st_map s c = Some r \<Longrightarrow> store_pinned s c = st_arrays s r"
  by (simp add: store_pinned_def)

lemma finish_pinned:
  assumes "store_wf s0" and "st_map s0 (chatId rq) = Some r"
  shows "store_pinned (snd (pin_finish client s0 rq r)) c =
           (if c = chatId rq then
              (case find_message client (chatId rq) (messageId rq) of
                 Return (Some m) \<Rightarrow> store_pinned s0 c @ [to_pinned m]
               | _ \<Rightarrow> store_pinned s0 c)
            else store_pinned s0 c)"
    and "store_wf (snd (pin_finish client s0 rq r))"
proof -
  have other: "st_map s0 c = Some r' \<Longrightarrow> c \<noteq> chatId rq \<Longrightarrow> r' \<noteq> r" for r'
    using wf_inj [OF assms(1) _ assms(2)] by blast
  show "store_pinned (snd (pin_finish client s0 rq r)) c =
           (if c = chatId rq then
              (case find_message client (chatId rq) (messageId rq) of
                 Return (Some m) \<Rightarrow> store_pinned s0 c @ [to_pinned m]
               | _ \<Rightarrow> store_pinned s0 c)
            else store_pinned s0 c)"
    using assms(2) other
    by (auto simp: pin_finish_def Let_def store_pinned_def split: js.split option.split)
  have same: "(st_map s0)(chatId rq \<mapsto> r) = st_map s0"
    using assms(2) by (simp add: fun_upd_idem)
  show "store_wf (snd (pin_finish client s0 rq r))"
    using assms(1)
    by (simp add: pin_finish_def Let_def same store_wf_def split: js.split option.split)
qed

lemma unpin_pinned:
  assumes "store_wf s0" and "st_map s0 cid = Some r"
  shows "store_pinned (s0\<lparr>st_map := (st_map s0)(cid \<mapsto> st_fresh s0),
                           st_arrays := (st_arrays s0)(st_fresh s0 := xs),
                           st_fresh := Suc (st_fresh s0)\<rparr>) c
         = (if c = cid then xs else store_pinned s0 c)"
    and "store_wf (s0\<lparr>st_map := (st_map s0)(cid \<mapsto> st_fresh s0),
                           st_arrays := (st_arrays s0)(st_fresh s0 := xs),
                           st_fresh := Suc (st_fresh s0)\<rparr>)"
proof -
  have lt: "st_map s0 c' = Some r' \<Longrightarrow> r' < st_fresh s0" for c' r'
    using wf_lt [OF assms(1)] by blast
  show "store_pinned (s0\<lparr>st_map := (st_map s0)(cid \<mapsto> st_fresh s0),
                           st_arrays := (st_arrays s0)(st_fresh s0 := xs),
                           st_fresh := Suc (st_fresh s0)\<rparr>) c
         = (if c = cid then xs else store_pinned s0 c)"
    using lt by (auto simp: store_pinned_def split: option.split)
  show "store_wf (s0\<lparr>st_map := (st_map s0)(cid \<mapsto> st_fresh s0),
                           st_arrays := (st_arrays s0)(st_fresh s0 := xs),
                           st_fresh := Suc (st_fresh s0)\<rparr>)"
    unfolding store_wf_def
  proof (intro conjI allI impI)
    fix c' r'
    assume "st_map (s0\<lparr>st_map := (st_map s0)(cid \<mapsto> st_fresh s0),
                           st_arrays := (st_arrays s0)(st_fresh s0 := xs),
                           st_fresh := Suc (st_fresh s0)\<rparr>) c' = Some r'"
    then show "r' < st_fresh (s0\<lparr>st_map := (st_map s0)(cid \<mapsto> st_fresh s0),
                           st_arrays := (st_arrays s0)(st_fresh s0 := xs),
                           st_fresh := Suc (st_fresh s0)\<rparr>)"
      using lt [of c' r'] by (auto split: if_splits)
  next
    fix c1 c2 r'
    assume "st_map (s0\<lparr>st_map := (st_map s0)(cid \<mapsto> st_fresh s0),
                           st_arrays := (st_arrays s0)(st_fresh s0 := xs),
                           st_fresh := Suc (st_fresh s0)\<rparr>) c1 = Some r'
          \<and> st_map (s0\<lparr>st_map := (st_map s0)(cid \<mapsto> st_fresh s0),
                           st_arrays := (st_arrays s0)(st_fresh s0 := xs),
                           st_fresh := Suc (st_fresh s0)\<rparr>) c2 = Some r'"
    then show "c1 = c2"
      using lt [of c1 r'] lt [of c2 r'] wf_inj [OF assms(1), of c1 r' c2]
      by (auto split: if_splits)
  qed
qed

lemma alone_pinned_after:
  assumes "store_wf s"
  shows "store_pinned (snd (pin_alone client s rq)) cid =
     (if st_isReady s \<and> st_isAuthenticated s \<and> chatId rq \<noteq> [] \<and> messageId rq \<noteq> []
         \<and> action rq \<noteq> [] \<and> cid = chatId rq
      then (if action rq = ''pin'' then
              (if messageId rq \<in> p_id ` set (store_pinned s cid) then store_pinned s cid
               else (case find_message client (chatId rq) (messageId rq) of
                       Return (Some m) \<Rightarrow> store_pinned s cid @ [to_pinned m]
                     | _ \<Rightarrow> store_pinned s cid))
            else if action rq = ''unpin''
              then filter (\<lambda>p. p_id p \<noteq> messageId rq) (store_pinned s cid)
            else store_pinned s cid)
      else store_pinned s cid)"
    and "store_wf (snd (pin_alone client s rq))"
proof -
  let ?r = "fst (ensure_array s (chatId rq))"
  let ?s0 = "snd (ensure_array s (chatId rq))"
  note e = ensure_array_props [OF assms, of "chatId rq"]
  have arr: "st_arrays ?s0 ?r = store_pinned s (chatId rq)"
    using e(2) e(3) [of "chatId rq"] by (simp add: store_pinned_Some)
  have found: "js_find (\<lambda>p. p_id p = messageId rq) (st_arrays ?s0 ?r) = None
      \<longleftrightarrow> messageId rq \<notin> p_id ` set (store_pinned s (chatId rq))"
    unfolding arr by (auto simp: js_find_None_iff image_iff)
  note fin = finish_pinned [OF e(1) e(2), of client]
  note unp = unpin_pinned [OF e(1) e(2)]
  have fresh: "store_pinned ?s0 c = store_pinned s c" for c
    using e(3) [of c] .
  consider (rejected) "\<not> (st_isReady s \<and> st_isAuthenticated s \<and> chatId rq \<noteq> []
                            \<and> messageId rq \<noteq> [] \<and> action rq \<noteq> [])"
    | (pinned) "st_isReady s" "st_isAuthenticated s" "chatId rq \<noteq> []" "messageId rq \<noteq> []"
        "action rq = ''pin''" "messageId rq \<in> p_id ` set (store_pinned s (chatId rq))"
    | (pin) "st_isReady s" "st_isAuthenticated s" "chatId rq \<noteq> []" "messageId rq \<noteq> []"
        "action rq = ''pin''" "messageId rq \<notin> p_id ` set (store_pinned s (chatId rq))"
    | (unpin) "st_isReady s" "st_isAuthenticated s" "chatId rq \<noteq> []" "messageId rq \<noteq> []"
        "action rq = ''unpin''"
    | (other) "st_isReady s" "st_isAuthenticated s" "chatId rq \<noteq> []" "messageId rq \<noteq> []"
        "action rq \<noteq> []" "action rq \<noteq> ''pin''" "action rq \<noteq> ''unpin''"
    by blast
  then have "store_pinned (snd (pin_alone client s rq)) cid =
     (if st_isReady s \<and> st_isAuthenticated s \<and> chatId rq \<noteq> [] \<and> messageId rq \<noteq> []
         \<and> action rq \<noteq> [] \<and> cid = chatId rq
      then (if action rq = ''pin'' then
              (if messageId rq \<in> p_id ` set (store_pinned s cid) then store_pinned s cid
               else (case find_message client (chatId rq) (messageId rq) of
                       Return (Some m) \<Rightarrow> store_pinned s cid @ [to_pinned m]
                     | _ \<Rightarrow> store_pinned s cid))
            else if action rq = ''unpin''
              then filter (\<lambda>p. p_id p \<noteq> messageId rq) (store_pinned s cid)
            else store_pinned s cid)
      else store_pinned s cid)
    \<and> store_wf (snd (pin_alone client s rq))"
  proof cases
    case rejected
    then have "snd (pin_alone client s rq) = s"
      by (auto simp: pin_alone_def pin_begin_def)
    then show ?thesis using rejected assms by auto
  next
    case pinned
    then have "snd (pin_alone client s rq) = ?s0"
      using found by (auto simp: pin_alone_def pin_begin_def Let_def)
    then show ?thesis using pinned fresh e(1) by simp
  next
    case pin
    then have "snd (pin_alone client s rq) = snd (pin_finish client ?s0 rq ?r)"
      using found by (auto simp: pin_alone_def pin_begin_def Let_def)
    then show ?thesis using pin fresh fin(1) [of cid] fin(2)
      by (simp split: js.split option.split)
  next
    case unpin
    then have "snd (pin_alone client s rq) =
        ?s0\<lparr>st_map := (st_map ?s0)(chatId rq \<mapsto> st_fresh ?s0),
             st_arrays := (st_arrays ?s0)
               (st_fresh ?s0 := filter (\<lambda>p. p_id p \<noteq> messageId rq) (st_arrays ?s0 ?r)),
             st_fresh := Suc (st_fresh ?s0)\<rparr>"
      by (simp add: pin_alone_def pin_begin_def Let_def)
    then show ?thesis using unpin fresh arr unp(1) [of _ cid] unp(2)
      by simp
  next
    case other
    then have "snd (pin_alone client s rq) = ?s0"
      by (simp add: pin_alone_def pin_begin_def Let_def)
    then show ?thesis using other fresh e(1) by simp
  qed
  then show "store_pinned (snd (pin_alone client s rq)) cid =
     (if st_isReady s \<and> st_isAuthenticated s \<and> chatId rq \<noteq> [] \<and> messageId rq \<noteq> []
         \<and> action rq \<noteq> [] \<and> cid = chatId rq
      then (if action rq = ''pin'' then
              (if messageId rq \<in> p_id ` set (store_pinned s cid) then store_pinned s cid
               else (case find_message client (chatId rq) (messageId rq) of
                       Return (Some m) \<Rightarrow> store_pinned s cid @ [to_pinned m]
                     | _ \<Rightarrow> store_pinned s cid))
            else if action rq = ''unpin''
              then filter (\<lambda>p. p_id p \<noteq> messageId rq) (store_pinned s cid)
            else store_pinned s cid)
      else store_pinned s cid)"
    and "store_wf (snd (pin_alone client s rq))"
    by blast+
qed


lemma finish_response:
  "fst (pin_finish client s rq r) =
     (if \<exists>e. find_message client (chatId rq) (messageId rq) = Throw e then
        \<lparr>pr_status = 500, pr_success = False, pr_pinnedMessages = [], pr_message = [],
          pr_error = ''Failed to pin/unpin message''\<rparr>
      else store_ok (snd (pin_finish client s rq r)) rq)"
  by (simp add: pin_finish_def Let_def split: js.split option.split)

lemma alone_response:
  assumes "store_wf s"
  shows "fst (pin_alone client s rq) =
     (if \<not> st_isReady s \<or> \<not> st_isAuthenticated s then
        \<lparr>pr_status = 400, pr_success = False, pr_pinnedMessages = [], pr_message = [],
          pr_error = ''WhatsApp client is not ready. Please wait for authentication.''\<rparr>
      else if chatId rq = [] \<or> messageId rq = [] \<or> action rq = [] then
        \<lparr>pr_status = 400, pr_success = False, pr_pinnedMessages = [], pr_message = [],
          pr_error = ''Chat ID, message ID, and action are required''\<rparr>
      else if action rq = ''pin'' \<and> messageId rq \<notin> p_id ` set (store_pinned s (chatId rq))
              \<and> (\<exists>e. find_message client (chatId rq) (messageId rq) = Throw e) then
        \<lparr>pr_status = 500, pr_success = False, pr_pinnedMessages = [], pr_message = [],
          pr_error = ''Failed to pin/unpin message''\<rparr>
      else
        \<lparr>pr_status = 200, pr_success = True,
         pr_pinnedMessages = store_pinned (snd (pin_alone client s rq)) (chatId rq),
         pr_message = ''Message '' @ action rq @ ''ed successfully'', pr_error = []\<rparr>)"
proof -
  let ?r = "fst (ensure_array s (chatId rq))"
  let ?s0 = "snd (ensure_array s (chatId rq))"
  note e = ensure_array_props [OF assms, of "chatId rq"]
  have arr: "st_arrays ?s0 ?r = store_pinned s (chatId rq)"
    using e(2) e(3) [of "chatId rq"] by (simp add: store_pinned_Some)
  have found: "js_find (\<lambda>p. p_id p = messageId rq) (st_arrays ?s0 ?r) = None
      \<longleftrightarrow> messageId rq \<notin> p_id ` set (store_pinned s (chatId rq))"
    unfolding arr by (auto simp: js_find_None_iff image_iff)
  show ?thesis
  proof (cases "js_find (\<lambda>p. p_id p = messageId rq) (st_arrays ?s0 ?r) = None")
    case True
    then show ?thesis
      using found finish_response [of client ?s0 rq ?r]
      by (simp add: pin_alone_def pin_begin_def Let_def store_ok_def)
  next
    case False
    then show ?thesis
      using found
      by (auto simp: pin_alone_def pin_begin_def Let_def store_ok_def)
  qed
qed

text \<open>
  Without overlap the store model is the handler: from a store the server can have, a
  request run alone gives the answer of \<open>pin_message_handler\<close> and a store that stands
  for the state it leaves, chat by chat.
\<close>

lemma pin_alone_is_handler:
  assumes "store_wf s"
  shows "fst (pin_alone client s rq) = fst (pin_message_handler client (view s cs) rq)"
    and "store_pinned (snd (pin_alone client s rq)) cid
         = pinned_of (snd (pin_message_handler client (view s cs) rq)) cid"
    and "store_wf (snd (pin_alone client s rq))"
proof -
  have flags: "isReady (view s cs) = st_isReady s" "isAuthenticated (view s cs) = st_isAuthenticated s"
    by (simp_all add: view_def)
  show st: "store_pinned (snd (pin_alone client s rq)) cid
         = pinned_of (snd (pin_message_handler client (view s cs) rq)) cid" for cid
    unfolding alone_pinned_after(1) [OF assms] pinned_after flags pinned_of_view ..
  show "fst (pin_alone client s rq) = fst (pin_message_handler client (view s cs) rq)"
    unfolding alone_response [OF assms] handler_response flags pinned_of_view st ..
  show "store_wf (snd (pin_alone client s rq))"
    using assms by (rule alone_pinned_after(2))
qed

text \<open>
  C10. The claim: no chat's pinned list ever holds two entries with the same message id,
  every pin and unpin keeping it so from the empty list. A request that no other request
  overlaps keeps it so (\<open>pin_preserves_distinct\<close>, \<open>pin_alone_is_handler\<close>). Two pin requests
  for the same message that overlap do not: from a store with no pinned message both
  pass the already-pinned test before either pushes, both hold the same array, and
  both push, so the chat's list ends as \<^verbatim>\<open>m1, m1\<close>.
\<close>

theorem overlapping_pins_duplicate:
  "fst (pin_begin ready_store (pin_req ''m1'' ''pin'')) = Awaiting 0
   \<and> fst (pin_begin (snd (pin_begin ready_store (pin_req ''m1'' ''pin'')))
            (pin_req ''m1'' ''pin'')) = Awaiting 0
   \<and> map p_id (store_pinned
        (snd (pin_finish (Some (chat_client (fixed_chat [mk_msg ''m1'' 10])))
           (snd (pin_finish (Some (chat_client (fixed_chat [mk_msg ''m1'' 10])))
              (snd (pin_begin (snd (pin_begin ready_store (pin_req ''m1'' ''pin'')))
                     (pin_req ''m1'' ''pin'')))
              (pin_req ''m1'' ''pin'') 0))
           (pin_req ''m1'' ''pin'') 0))
        ''chat1'') = [''m1'', ''m1'']"
proof -
  let ?c = "Some (chat_client (fixed_chat [mk_msg ''m1'' 10]))"
  let ?rq = "pin_req ''m1'' ''pin''"
  let ?s1 = "ready_store\<lparr>st_map := [''chat1'' \<mapsto> 0], st_arrays := (\<lambda>_. [])(0 := []),
                           st_fresh := Suc 0\<rparr>"
  have b1: "pin_begin ready_store ?rq = (Awaiting 0, ?s1)"
    by (simp add: pin_begin_def ensure_array_def ready_store_def pin_req_def Let_def)
  have b2: "pin_begin ?s1 ?rq = (Awaiting 0, ?s1)"
    by (simp add: pin_begin_def ensure_array_def ready_store_def pin_req_def Let_def)
  have f: "find_message ?c ''chat1'' ''m1'' = Return (Some (mk_msg ''m1'' 10))"
    by (simp add: find_message_def chat_client_def fixed_chat_def mk_msg_def)
  have e1: "snd (pin_finish ?c s ?rq 0)
      = s\<lparr>st_arrays := (st_arrays s)(0 := st_arrays s 0 @ [to_pinned (mk_msg ''m1'' 10)]),
          st_map := (st_map s)(''chat1'' \<mapsto> 0)\<rparr>" for s
    by (simp add: pin_finish_def pin_req_def f Let_def)
  have e: "map p_id (store_pinned (snd (pin_finish ?c (snd (pin_finish ?c ?s1 ?rq 0)) ?rq 0)) ''chat1'')
      = [''m1'', ''m1'']"
    unfolding e1 by (simp add: store_pinned_def ready_store_def to_pinned_def mk_msg_def)
  show ?thesis
    by (simp add: b1 b2 e)
qed

theorem overlapping_pins_duplicate_witness:
  "\<not> distinct (map p_id (store_pinned
        (snd (pin_finish (Some (chat_client (fixed_chat [mk_msg ''m1'' 10])))
           (snd (pin_finish (Some (chat_client (fixed_chat [mk_msg ''m1'' 10])))
              (snd (pin_begin (snd (pin_begin ready_store (pin_req ''m1'' ''pin'')))
                     (pin_req ''m1'' ''pin'')))
              (pin_req ''m1'' ''pin'') 0))
           (pin_req ''m1'' ''pin'') 0))
        ''chat1''))"
  using overlapping_pins_duplicate by simp

subsection \<open>History pager\<close>

lemma findIndex_ge: "- 1 \<le> findIndex p xs"
  by (induction xs) (auto simp: Let_def)

lemma findIndex_neg_iff: "findIndex p xs < 0 \<longleftrightarrow> (\<forall>x\<in>set xs. \<not> p x)"
  using findIndex_ge [of p] by (induction xs) (auto simp: Let_def)

lemma findIndex_lt_length: "findIndex p xs < int (length xs)"
  by (induction xs) (auto simp: Let_def)

lemma findIndex_append:
  "\<forall>x\<in>set xs. \<not> p x \<Longrightarrow>
   findIndex p (xs @ ys) = (if findIndex p ys < 0 then - 1 else int (length xs) + findIndex p ys)"
  using findIndex_ge [of p ys] by (induction xs) (auto simp: Let_def)

lemma format_message_id: "f_id (format_message c m) = m_id m"
  by (simp add: format_message_def Let_def split: js.split option.split)

lemma format_message_timestamp: "f_timestamp (format_message c m) = m_timestamp m"
  by (simp add: format_message_def Let_def split: js.split option.split)

lemma older_page_not_found:
  assumes "fetchMessages ch (Num 500) = Return batch" and "beforeId \<notin> m_id ` set batch"
  shows "older_page ch ps beforeId = (Return [], [Num 500])"
proof -
  have "findIndex (\<lambda>m. m_id m = beforeId) batch < 0"
    using assms(2) by (auto simp: findIndex_neg_iff)
  then show ?thesis
    using assms(1) by (simp add: older_page_def Let_def)
qed

lemma length_js_slice_le:
  "0 \<le> s \<Longrightarrow> 0 \<le> e \<Longrightarrow> int (length (js_slice xs (Num s) (Num e))) \<le> max 0 (e - s)"
  by (auto simp: js_slice_def Let_def min_def)

text \<open>For every batch, whatever its order, a page holds at most \<open>p\<close> messages.\<close>

lemma older_page_at_most:
  assumes "fst (older_page ch (Num p) beforeId) = Return ms" and "0 < p"
  shows "int (length ms) \<le> p"
proof (cases "fetchMessages ch (Num 500)")
  case (Throw e)
  then show ?thesis using assms by (simp add: older_page_def)
next
  case (Return allMessages)
  have after: "int (length (js_slice xs (Num (k + 1)) (Num (min (k + 1 + p) (int (length xs)))))) \<le> p"
    if "0 \<le> k" for xs :: "msg list" and k
    using length_js_slice_le [of "k + 1" "min (k + 1 + p) (int (length xs))" xs] that assms(2)
    by simp
  have before: "int (length (js_slice xs (Num (max 0 (k - p))) (Num k))) \<le> p"
    if "0 \<le> k" for xs :: "msg list" and k
    using length_js_slice_le [of "max 0 (k - p)" k xs] that assms(2)
    by simp
  show ?thesis
    using assms Return after before
    by (auto simp: older_page_def Let_def split: if_splits js.splits)
qed

text \<open>
  C5. With the session ready and authenticated, the chat found and the first overfetch
  (limit 500) answered, a cursor id that no message of the batch carries gives the
  success answer (status 200) with an empty message list, after that one fetch; the
  page size plays no part.
\<close>

theorem cursor_not_found_empty_page:
  assumes "isReady sv" and "isAuthenticated sv"
    and "getChatById c cid = Return (Some ch)"
    and "fetchMessages ch (Num 500) = Return batch"
    and "beforeId \<noteq> []" and "beforeId \<notin> m_id ` set batch"
  shows "chat_messages_handler (Some c) sv cid beforeId limit
         = (\<lparr>r_status = 200, r_messages = [], r_error = []\<rparr>, [Num 500])"
  using assms(1,2,3,5) older_page_not_found [OF assms(4,6)]
  by (simp add: chat_messages_handler_def Let_def)

theorem cursor_not_found_empty_page_witness:
  "''zz'' \<notin> m_id ` set oldest_first_batch
   \<and> chat_messages_handler (Some (chat_client (fixed_chat oldest_first_batch))) ready_server
        ''chat1'' ''zz'' (Some ''2'')
      = (\<lparr>r_status = 200, r_messages = [], r_error = []\<rparr>, [Num 500])"
proof -
  have n: "''zz'' \<notin> m_id ` set oldest_first_batch"
    by (simp add: oldest_first_batch_def mk_msg_def)
  have g: "getChatById (chat_client (fixed_chat oldest_first_batch)) ''chat1''
           = Return (Some (fixed_chat oldest_first_batch))"
    by (simp add: chat_client_def)
  have f: "fetchMessages (fixed_chat oldest_first_batch) (Num 500) = Return oldest_first_batch"
    by (simp add: fixed_chat_def)
  have r: "isReady ready_server" "isAuthenticated ready_server"
    by (simp_all add: ready_server_def)
  have z: "''zz'' \<noteq> []" by simp
  show ?thesis
    using cursor_not_found_empty_page [OF r g f z n, of "Some ''2''"] n by simp
qed

lemma findIndex_nth:
  "distinct (map f xs) \<Longrightarrow> i < length xs \<Longrightarrow> findIndex (\<lambda>m. f m = f (xs ! i)) xs = int i"
proof (induction xs arbitrary: i)
  case Nil
  then show ?case by simp
next
  case (Cons x xs)
  show ?case
  proof (cases i)
    case 0
    then show ?thesis by simp
  next
    case (Suc j)
    then have j: "j < length xs" using Cons.prems by simp
    have ne: "f x \<noteq> f (xs ! j)"
      using Cons.prems(1) j by (metis distinct.simps(2) list.simps(9) nth_map nth_mem length_map)
    have ih: "findIndex (\<lambda>m. f m = f (xs ! j)) xs = int j"
      using Cons.IH [of j] Cons.prems(1) j by simp
    show ?thesis
      using ne ih by (simp add: Suc Let_def)
  qed
qed

lemma js_slice_take_drop:
  "0 \<le> s \<Longrightarrow> s \<le> e \<Longrightarrow> e \<le> int (length xs)
   \<Longrightarrow> js_slice xs (Num s) (Num e) = take (nat (e - s)) (drop (nat s) xs)"
  by (simp add: js_slice_def Let_def min_def)

text \<open>
  The designed case: both fetches answer the same batch, newest first with strictly
  decreasing timestamps and distinct ids, and the cursor is its \<open>i\<close>-th message. The page
  is made of the (at most \<open>p\<close>) messages that follow the cursor in the batch.
\<close>

lemma older_page_newest_first:
  assumes "fetchMessages ch (Num 500) = Return batch"
    and "fetchMessages ch (Num 1000) = Return batch"
    and "sorted_wrt (\<lambda>a b. m_timestamp b < m_timestamp a) batch"
    and "distinct (map m_id batch)" and "i < length batch" and "0 < p"
  shows "fst (older_page ch (Num p) (m_id (batch ! i))) = Return (take (nat p) (drop (Suc i) batch))"
proof -
  let ?n = "int (length batch)"
  have idx: "findIndex (\<lambda>m. m_id m = m_id (batch ! i)) batch = int i"
    using findIndex_nth [OF assms(4,5)] .
  show ?thesis
  proof (cases "1 < length batch")
    case False
    then have i0: "i = 0" and l1: "length batch = 1"
      using assms(5) by auto
    then obtain x where bx: "batch = [x]"
      by (cases batch) auto
    show ?thesis
      using assms(1,6) by (simp add: older_page_def bx i0 Let_def)
  next
    case True
    then obtain x b' where bx: "batch = x # b'" and bne: "b' \<noteq> []"
      by (cases batch) auto
    have "last b' \<in> set b'" using bne by simp
    then have lt: "m_timestamp (last batch) < m_timestamp x"
      using assms(3) bne by (auto simp: bx)
    have nf: "(case batch of [] \<Rightarrow> False
               | first # _ \<Rightarrow> 1 < length batch \<and> m_timestamp (last batch) < m_timestamp first)"
      using lt True by (simp add: bx)
    have sl: "js_slice batch (Num (int i + 1)) (Num (min (int i + 1 + p) ?n))
              = take (nat p) (drop (Suc i) batch)"
    proof -
      have "js_slice batch (Num (int i + 1)) (Num (min (int i + 1 + p) ?n))
            = take (nat (min (int i + 1 + p) ?n - (int i + 1))) (drop (nat (int i + 1)) batch)"
        using assms(5,6) by (intro js_slice_take_drop) auto
      also have "\<dots> = take (nat p) (drop (Suc i) batch)"
        using assms(5,6) by (auto simp: min_def nat_add_distrib Suc_nat_eq_nat_zadd1)
      finally show ?thesis .
    qed
    have empty: "take (nat p) (drop (Suc i) batch) = []" if "\<not> int i + 1 < ?n"
      using that by simp
    show ?thesis
      unfolding older_page_def assms(1) assms(2) js.case Let_def idx
      using nf assms(5,6) sl empty
      by (auto simp: min_def)
  qed
qed

lemma newest_first_page_ordered:
  assumes "fetchMessages ch (Num 500) = Return batch"
    and "fetchMessages ch (Num 1000) = Return batch"
    and "sorted_wrt (\<lambda>a b. m_timestamp b < m_timestamp a) batch"
    and "distinct (map m_id batch)" and "i < length batch" and "0 < p"
    and "fst (older_page ch (Num p) (m_id (batch ! i))) = Return ms"
  shows "int (length ms) \<le> p
    \<and> (\<forall>m\<in>set ms. m_timestamp m < m_timestamp (batch ! i))
    \<and> sorted_wrt (\<lambda>a b. m_timestamp a < m_timestamp b) (rev ms)"
proof -
  have ms: "ms = take (nat p) (drop (Suc i) batch)"
    using older_page_newest_first [OF assms(1-6)] assms(7) by simp
  have split: "batch = take i batch @ (batch ! i) # drop (Suc i) batch"
    using assms(5) by (simp add: id_take_nth_drop)
  have "sorted_wrt (\<lambda>a b. m_timestamp b < m_timestamp a) (take i batch @ (batch ! i) # drop (Suc i) batch)"
    using assms(3) split by simp
  then have older: "\<forall>m\<in>set (drop (Suc i) batch). m_timestamp m < m_timestamp (batch ! i)"
    and desc: "sorted_wrt (\<lambda>a b. m_timestamp b < m_timestamp a) (drop (Suc i) batch)"
    by (auto simp: sorted_wrt_append)
  have d2: "sorted_wrt (\<lambda>a b. m_timestamp b < m_timestamp a) ms"
    unfolding ms using desc by (rule sorted_wrt_take)
  have "set ms \<subseteq> set (drop (Suc i) batch)"
    unfolding ms by (rule set_take_subset)
  then have o2: "\<forall>m\<in>set ms. m_timestamp m < m_timestamp (batch ! i)"
    using older by blast
  have l: "int (length ms) \<le> p"
    unfolding ms using assms(6) by simp
  show ?thesis
    using l o2 d2 by (simp add: sorted_wrt_rev)
qed

text \<open>
  C1. The claim: for a page size from 1 to 100 the pager returns at most that many
  messages, each older than the cursor message, in ascending timestamp order, whether the
  batch is newest first or oldest first. The bound holds for every batch
  (\<open>older_page_at_most\<close>) and the whole claim holds for a newest-first batch with strictly
  decreasing timestamps
  (\<open>newest_first_page_ordered\<close>). It fails on a batch in oldest-first order: the batch
  has the timestamps 10, 20, 30; with the newest message as cursor and page size 2 the
  slice before the cursor is \<^verbatim>\<open>m1, m2\<close> (ascending), and the unconditional \<^verbatim>\<open>reverse()\<close>
  before the answer turns it into \<^verbatim>\<open>m2, m1\<close>: the page is returned newest first,
  timestamps 20 then 10.
\<close>

theorem oldest_first_page_descending:
  "map f_id (r_messages (fst (chat_messages_handler
        (Some (chat_client (fixed_chat oldest_first_batch))) ready_server
        ''chat1'' ''m3'' (Some ''2'')))) = [''m2'', ''m1'']
   \<and> map f_timestamp (r_messages (fst (chat_messages_handler
        (Some (chat_client (fixed_chat oldest_first_batch))) ready_server
        ''chat1'' ''m3'' (Some ''2'')))) = [20, 10]
   \<and> map m_timestamp oldest_first_batch = [10, 20, 30]"
proof -
  have ps: "pageSize (Some ''2'') = Num 2"
    by (simp add: pageSize_def parseInt10_def is_space_def is_digit_def digits_val_def)
  have op: "older_page (fixed_chat oldest_first_batch) (Num 2) ''m3''
      = (Return [mk_msg ''m1'' 10, mk_msg ''m2'' 20], [Num 500])"
    by (simp add: older_page_def fixed_chat_def oldest_first_batch_def mk_msg_def Let_def
        js_slice_def)
  show ?thesis
    by (simp add: chat_messages_handler_def ready_server_def chat_client_def ps op Let_def
        format_message_id format_message_timestamp)
      (simp add: oldest_first_batch_def mk_msg_def)
qed

theorem oldest_first_page_descending_witness:
  "\<not> sorted (map f_timestamp (r_messages (fst (chat_messages_handler
        (Some (chat_client (fixed_chat oldest_first_batch))) ready_server
        ''chat1'' ''m3'' (Some ''2'')))))"
  using oldest_first_page_descending by simp

lemma recent_messages_all:
  "length history \<le> k \<Longrightarrow> 0 < k \<Longrightarrow>
   recent_messages history ori (Num (int k))
     = Return (if ori = NewestFirst then rev history else history)"
  by (simp add: recent_messages_def Let_def)

lemma older_page_oldest_first_at_head:
  assumes "fetchMessages ch (Num 500) = Return (h # t)"
    and "m_timestamp h \<le> m_timestamp (last (h # t))" and "0 < p"
  shows "older_page ch (Num p) (m_id h) = (Return [], [Num 500])"
  using assms by (simp add: older_page_def Let_def)

lemma older_page_newest_first_at_last:
  assumes "fetchMessages ch (Num 500) = Return (b @ [h])"
    and "fetchMessages ch (Num 1000) = Return (b @ [h])"
    and "b \<noteq> []" and "m_id h \<notin> m_id ` set b"
    and "m_timestamp h < m_timestamp (hd b)" and "0 < p"
  shows "older_page ch (Num p) (m_id h) = (Return [], [Num 500, Num 1000])"
proof -
  have nb: "\<forall>x\<in>set b. \<not> m_id x = m_id h"
    using assms(4) by (metis imageI)
  have idx: "findIndex (\<lambda>m. m_id m = m_id h) (b @ [h]) = int (length b)"
    by (simp add: findIndex_append [OF nb])
  obtain x b' where b: "b = x # b'"
    using assms(3) by (cases b) auto
  have nf: "(case b @ [h] of [] \<Rightarrow> False
             | first # _ \<Rightarrow> 1 < length (b @ [h]) \<and> m_timestamp (last (b @ [h])) < m_timestamp first)"
    using assms(5) by (simp add: b)
  show ?thesis
    unfolding older_page_def assms(1) assms(2) js.case Let_def idx
    using nf assms(6) by simp
qed

text \<open>
  C6, as the code has it. The chat's history has exactly \<open>p\<close> messages (\<open>p\<close> from 1 to
  100) with distinct ids in chronological order, the page size is \<open>p\<close>, and, when the
  source answers newest first and \<open>p\<close> is at least 2, the newest message has a strictly
  later timestamp than the oldest. Then the request without a cursor answers 200 with
  all \<open>p\<close> messages (reversed from the order of the batch), and the request with the
  oldest message's id as cursor answers 200 with an empty list: after the 500 and the
  1000 message fetch when the batch is newest first with at least two messages, after
  the 500 message fetch alone otherwise.
\<close>

theorem exact_history_pages:
  assumes "isReady sv" and "isAuthenticated sv"
    and "getChatById c cid = Return (Some (history_chat history ori))"
    and "length history = p" and "1 \<le> p" and "p \<le> 100"
    and "pageSize limit = Num (int p)"
    and "distinct (map m_id history)" and "m_id (hd history) \<noteq> []"
    and "sorted (map m_timestamp history)"
    and "ori = NewestFirst \<and> 2 \<le> p \<longrightarrow> m_timestamp (hd history) < m_timestamp (last history)"
  shows "r_status (fst (chat_messages_handler (Some c) sv cid [] limit)) = 200
    \<and> map f_id (r_messages (fst (chat_messages_handler (Some c) sv cid [] limit)))
        = (if ori = NewestFirst then map m_id history else rev (map m_id history))
    \<and> chat_messages_handler (Some c) sv cid (m_id (hd history)) limit
        = (\<lparr>r_status = 200, r_messages = [], r_error = []\<rparr>,
           if ori = NewestFirst \<and> 2 \<le> p then [Num 500, Num 1000] else [Num 500])"
proof -
  let ?ch = "history_chat history ori"
  obtain h t where ht: "history = h # t"
    using assms(4,5) by (cases history) auto
  have fp: "fetchMessages ?ch (Num (int p)) = Return (if ori = NewestFirst then rev history else history)"
    using assms(4,5) recent_messages_all [of history p ori] by (simp add: history_chat_def)
  have f500: "fetchMessages ?ch (Num 500) = Return (if ori = NewestFirst then rev history else history)"
    using assms(4,6) recent_messages_all [of history 500 ori] by (simp add: history_chat_def)
  have f1000: "fetchMessages ?ch (Num 1000) = Return (if ori = NewestFirst then rev history else history)"
    using assms(4,6) recent_messages_all [of history 1000 ori] by (simp add: history_chat_def)
  have first: "chat_messages_handler (Some c) sv cid [] limit
      = (\<lparr>r_status = 200,
           r_messages = rev (map (format_message c) (if ori = NewestFirst then rev history else history)),
           r_error = []\<rparr>, [Num (int p)])"
    using assms(1,2,3,7) fp by (simp add: chat_messages_handler_def Let_def)
  have part1: "r_status (fst (chat_messages_handler (Some c) sv cid [] limit)) = 200
    \<and> map f_id (r_messages (fst (chat_messages_handler (Some c) sv cid [] limit)))
        = (if ori = NewestFirst then map m_id history else rev (map m_id history))"
    unfolding first by (simp add: rev_map o_def format_message_id)
  have le: "m_timestamp h \<le> m_timestamp (last (h # t))"
    using assms(10) unfolding ht by (auto simp: sorted_wrt_append)
  have page: "older_page ?ch (Num (int p)) (m_id h)
      = (Return [], if ori = NewestFirst \<and> 2 \<le> p then [Num 500, Num 1000] else [Num 500])"
  proof (cases "ori = NewestFirst \<and> 2 \<le> p")
    case True
    have tne: "t \<noteq> []"
      using True assms(4) ht by auto
    have b5: "fetchMessages ?ch (Num 500) = Return (rev t @ [h])"
      and b10: "fetchMessages ?ch (Num 1000) = Return (rev t @ [h])"
      using True f500 f1000 by (simp_all add: ht)
    have nin: "m_id h \<notin> m_id ` set (rev t)"
      using assms(8) by (auto simp: ht)
    have ts: "m_timestamp h < m_timestamp (hd (rev t))"
      using True assms(11) tne by (simp add: ht hd_rev)
    show ?thesis
      using older_page_newest_first_at_last [OF b5 b10 _ nin ts, of "int p"] True tne assms(5)
      by simp
  next
    case False
    show ?thesis
    proof (cases "ori = NewestFirst")
      case True
      then have "t = []"
        using False assms(4) ht by (cases t) auto
      then have b5: "fetchMessages ?ch (Num 500) = Return (h # [])"
        using f500 by (simp add: ht)
      show ?thesis
        using older_page_oldest_first_at_head [OF b5, of "int p"] False assms(5) by simp
    next
      case o: False
      then have b5: "fetchMessages ?ch (Num 500) = Return (h # t)"
        using f500 by (simp add: ht)
      show ?thesis
        using older_page_oldest_first_at_head [OF b5 le, of "int p"] False assms(5) by simp
    qed
  qed
  have second: "chat_messages_handler (Some c) sv cid (m_id (hd history)) limit
        = (\<lparr>r_status = 200, r_messages = [], r_error = []\<rparr>,
           if ori = NewestFirst \<and> 2 \<le> p then [Num 500, Num 1000] else [Num 500])"
    using assms(1,2,3,7,9) page by (simp add: chat_messages_handler_def Let_def ht)
  show ?thesis
    using part1 second by simp
qed


lemma pageSize_2: "pageSize (Some ''2'') = Num 2"
  by (simp add: pageSize_def parseInt10_def is_space_def is_digit_def digits_val_def)

theorem exact_history_pages_witness:
  "map f_id (r_messages (fst (chat_messages_handler
        (Some (chat_client (history_chat two_history NewestFirst))) ready_server
        ''chat1'' [] (Some ''2'')))) = [''m1'', ''m2'']
   \<and> chat_messages_handler
        (Some (chat_client (history_chat two_history NewestFirst))) ready_server
        ''chat1'' ''m1'' (Some ''2'')
      = (\<lparr>r_status = 200, r_messages = [], r_error = []\<rparr>, [Num 500, Num 1000])"
proof -
  let ?c = "chat_client (history_chat two_history NewestFirst)"
  have r: "isReady ready_server" "isAuthenticated ready_server"
    by (simp_all add: ready_server_def)
  have g: "getChatById ?c ''chat1'' = Return (Some (history_chat two_history NewestFirst))"
    by (simp add: chat_client_def)
  have l: "length two_history = 2" "(1::nat) \<le> 2" "(2::nat) \<le> 100"
    by (simp_all add: two_history_def)
  have ps: "pageSize (Some ''2'') = Num (int 2)"
    by (simp add: pageSize_2)
  have d: "distinct (map m_id two_history)" "m_id (hd two_history) \<noteq> []"
    "sorted (map m_timestamp two_history)"
    "NewestFirst = NewestFirst \<and> (2::nat) \<le> 2
       \<longrightarrow> m_timestamp (hd two_history) < m_timestamp (last two_history)"
    by (simp_all add: two_history_def mk_msg_def)
  have ids: "map m_id two_history = [''m1'', ''m2'']" "m_id (hd two_history) = ''m1''"
    by (simp_all add: two_history_def mk_msg_def)
  show ?thesis
    using exact_history_pages [OF r g l ps d] by (simp add: ids)
qed

text \<open>
  C6 as stated fails when the first and the last message of a newest-first batch carry
  the same timestamp: the order test \<^verbatim>\<open>first.timestamp > last.timestamp\<close> then reads the
  batch as oldest first. For the history \<^verbatim>\<open>m1, m2\<close> with both timestamps 5, the page
  before the oldest message \<^verbatim>\<open>m1\<close> holds \<^verbatim>\<open>m2\<close> instead of being empty.
\<close>

theorem tied_timestamps_counterexample:
  "map m_timestamp tied_history = [5, 5]
   \<and> map f_id (r_messages (fst (chat_messages_handler
        (Some (chat_client (history_chat tied_history NewestFirst))) ready_server
        ''chat1'' [] (Some ''2'')))) = [''m1'', ''m2'']
   \<and> map f_id (r_messages (fst (chat_messages_handler
        (Some (chat_client (history_chat tied_history NewestFirst))) ready_server
        ''chat1'' ''m1'' (Some ''2'')))) = [''m2'']"
proof -
  have f: "fetchMessages (history_chat tied_history NewestFirst) (Num k)
      = Return [mk_msg ''m2'' 5, mk_msg ''m1'' 5]" if "2 \<le> k" for k
    using that by (simp add: history_chat_def recent_messages_def tied_history_def Let_def)
  have op: "older_page (history_chat tied_history NewestFirst) (Num 2) ''m1''
      = (Return [mk_msg ''m2'' 5], [Num 500])"
    by (simp add: older_page_def f Let_def) (simp add: mk_msg_def js_slice_def)
  show ?thesis
    by (simp add: chat_messages_handler_def ready_server_def chat_client_def pageSize_2 op f
        Let_def format_message_id)
      (simp add: tied_history_def mk_msg_def)
qed

end
